theory Spec2Isabelle
  imports Main "HOL-Library.Multiset"
begin

section \<open>Wire protocol, errors and the network log\<close>

text \<open>
  The synchronous API of \<^verbatim>\<open>src/lmstudio/sync_api.py\<close> multiplexes remote calls and
  streaming channels over one websocket per API namespace. Payloads are JSON objects
  whose content the code in this file never inspects; they are strings here.
  Frames are the envelopes of the protocol, named after their \<^verbatim>\<open>type\<close> field.
\<close>

type_synonym payload = string

datatype frame =
    RpcCall nat string payload
  | RpcResult nat payload
  | RpcError nat payload
  | ChannelCreate nat string payload
  | ChannelSend nat payload
  | ChannelCancel nat
  | ChannelClose nat

text \<open>
  A receive queue (\<^verbatim>\<open>queue.Queue[Any]\<close>) carries received frames and the shutdown
  sentinel \<^verbatim>\<open>None\<close>. The head of the list is what the next \<^verbatim>\<open>get()\<close> returns;
  \<^verbatim>\<open>put\<close> appends at the end. \<^verbatim>\<open>get()\<close> on an empty queue blocks.
\<close>

type_synonym rx_message = "frame option"

text \<open>
  Exceptions are values. The first four are raised by name in the source file;
  \<^verbatim>\<open>LMStudioPredictionError\<close> is the exception the file names for the handler of
  invalid tool requests; the others are the error kinds of the collaborators the
  file calls (\<^verbatim>\<open>_get_connection_failure_error\<close>, \<^verbatim>\<open>_get_auth_failure_error\<close>,
  \<^verbatim>\<open>_get_tx_error\<close>, the message handlers, \<^verbatim>\<open>_fail_if_connected\<close>,
  \<^verbatim>\<open>_ensure_connected(usage)\<close>) and Python's \<^verbatim>\<open>AssertionError\<close> and
  \<^verbatim>\<open>UnboundLocalError\<close>.
\<close>

datatype error =
    LMStudioValueError string
  | LMStudioRuntimeError string
  | LMStudioClientError string
  | LMStudioCancelledError string
  | LMStudioPredictionError string
  | ConnectError
  | AuthError payload
  | TxError
  | Disconnected
  | RpcFailed payload
  | ChannelError
  | AlreadyConnected string
  | NotConnected string
  | AssertionError
  | UnboundLocalError

text \<open>
  Everything the program does on the network, in order: opening the websocket of a
  URL, the authentication handshake (the authentication message is sent and the
  reply is read), and every frame written afterwards.
\<close>

datatype net_event =
    NetConnect string
  | NetAuth payload
  | NetSend frame

section \<open>The multiplexer\<close>

text \<open>
  Modelled from the spec: \<^verbatim>\<open>MultiplexingManager\<close> (\<^verbatim>\<open>self._mux\<close>) is defined in
  \<^verbatim>\<open>json_api.py\<close>, which is not among the sources. Spec 4.2: two monotonically
  increasing counters and two maps from ids to inboxes; \<^verbatim>\<open>assign_channel_id\<close> and
  \<^verbatim>\<open>assign_call_id\<close> are scoped acquisitions that register on entry and remove on
  exit; ids start at 0, increment by 1 and are never reused within a connection;
  \<^verbatim>\<open>map_rx\<close> inspects the frame type, extracts \<^verbatim>\<open>channelId\<close>/\<^verbatim>\<open>callId\<close> and returns the
  registered inbox or null. A queue object is named by its address in the heap of
  queues of the websocket; the maps are association lists in registration order.
\<close>

record multiplexing_manager =
  open_channels :: "(nat \<times> nat) list"
  pending_calls :: "(nat \<times> nat) list"
  next_channel_id :: nat
  next_call_id :: nat

definition MultiplexingManager_init :: multiplexing_manager where
  "MultiplexingManager_init =
     \<lparr>open_channels = [], pending_calls = [], next_channel_id = 0, next_call_id = 0\<rparr>"

text \<open>Entering \<^verbatim>\<open>with self._mux.assign_channel_id(rx_queue) as channel_id\<close>.\<close>

definition assign_channel_id :: "nat \<Rightarrow> multiplexing_manager \<Rightarrow> nat \<times> multiplexing_manager" where
  "assign_channel_id q m =
     (next_channel_id m,
      m\<lparr>open_channels := open_channels m @ [(next_channel_id m, q)],
        next_channel_id := Suc (next_channel_id m)\<rparr>)"

text \<open>Leaving that scope.\<close>

definition release_channel_id :: "nat \<Rightarrow> multiplexing_manager \<Rightarrow> multiplexing_manager" where
  "release_channel_id cid m =
     m\<lparr>open_channels := filter (\<lambda>kv. fst kv \<noteq> cid) (open_channels m)\<rparr>"

definition assign_call_id :: "nat \<Rightarrow> multiplexing_manager \<Rightarrow> nat \<times> multiplexing_manager" where
  "assign_call_id q m =
     (next_call_id m,
      m\<lparr>pending_calls := pending_calls m @ [(next_call_id m, q)],
        next_call_id := Suc (next_call_id m)\<rparr>)"

definition release_call_id :: "nat \<Rightarrow> multiplexing_manager \<Rightarrow> multiplexing_manager" where
  "release_call_id cid m =
     m\<lparr>pending_calls := filter (\<lambda>kv. fst kv \<noteq> cid) (pending_calls m)\<rparr>"

fun map_rx_message :: "multiplexing_manager \<Rightarrow> frame \<Rightarrow> nat option" where
  "map_rx_message m (ChannelSend cid _) = map_of (open_channels m) cid"
| "map_rx_message m (ChannelClose cid) = map_of (open_channels m) cid"
| "map_rx_message m (RpcResult cid _) = map_of (pending_calls m) cid"
| "map_rx_message m (RpcError cid _) = map_of (pending_calls m) cid"
| "map_rx_message m _ = None"

definition all_queues :: "multiplexing_manager \<Rightarrow> nat list" where
  "all_queues m = map snd (open_channels m) @ map snd (pending_calls m)"

section \<open>The background websocket thread\<close>

text \<open>
  \<^verbatim>\<open>_AsyncWebsocketThread\<close> owns the websocket and its event loop. Of its attributes
  the callers read \<^verbatim>\<open>_ws\<close> and \<^verbatim>\<open>_ws_loop\<close> (set together once the socket is open,
  cleared together by \<^verbatim>\<open>_clear_task_state\<close>), \<^verbatim>\<open>_connection_failure\<close>,
  \<^verbatim>\<open>_auth_failure\<close> and the \<^verbatim>\<open>_terminate\<close> event. \<open>link_ok\<close> is the state of the
  outside world: whether the socket still accepts a frame.
\<close>

record websocket_thread =
  t_ws :: bool
  connection_failure :: bool
  auth_failure :: "payload option"
  terminate :: bool
  link_ok :: bool

definition AsyncWebsocketThread_init :: websocket_thread where
  "AsyncWebsocketThread_init =
     \<lparr>t_ws = False, connection_failure = False, auth_failure = None,
      terminate = False, link_ok = True\<rparr>"

text \<open>How the server answers a connection attempt.\<close>

datatype server_reply = ConnectionRefused | AuthRejected payload | Accepted

text \<open>
  \<^verbatim>\<open>connect()\<close> starts the thread and blocks until the connection has been
  attempted; it returns \<^verbatim>\<open>self._ws is not None and self._ws_loop is not None\<close>.
  The thread runs \<^verbatim>\<open>_main_task\<close>: \<^verbatim>\<open>aconnect_ws(self._ws_url)\<close> (an exception is
  stored in \<^verbatim>\<open>_connection_failure\<close> and ends the thread), then \<^verbatim>\<open>_authenticate\<close>,
  which sends the authentication message and reads the reply (a reply without
  \<^verbatim>\<open>success\<close> is stored in \<^verbatim>\<open>_auth_failure\<close>, and the task returns, which clears
  \<^verbatim>\<open>_ws\<close>), then the demultiplexing task is started and the caller is released.
  The result carries the network events performed.
\<close>

fun AsyncWebsocketThread_connect ::
  "server_reply \<Rightarrow> string \<Rightarrow> payload \<Rightarrow> websocket_thread \<Rightarrow> bool \<times> websocket_thread \<times> net_event list" where
  "AsyncWebsocketThread_connect ConnectionRefused url auth t =
     (False, t\<lparr>connection_failure := True\<rparr>, [NetConnect url])"
| "AsyncWebsocketThread_connect (AuthRejected err) url auth t =
     (False, t\<lparr>auth_failure := Some err\<rparr>, [NetConnect url, NetAuth auth])"
| "AsyncWebsocketThread_connect Accepted url auth t =
     (True, t\<lparr>t_ws := True\<rparr>, [NetConnect url, NetAuth auth])"

text \<open>
  \<^verbatim>\<open>send_json\<close> runs \<^verbatim>\<open>_send_json\<close> on the event loop and waits for it:
  \<^verbatim>\<open>_run_background_task\<close> asserts that the loop exists, \<^verbatim>\<open>_send_json\<close> converts
  any exception of the socket into the transmission error.
\<close>

definition AsyncWebsocketThread_send_json ::
  "websocket_thread \<Rightarrow> frame \<Rightarrow> (error + unit) \<times> net_event list" where
  "AsyncWebsocketThread_send_json t msg =
     (if \<not> t_ws t then (Inl AssertionError, [])
      else if \<not> link_ok t then (Inl TxError, [])
      else (Inr (), [NetSend msg]))"

text \<open>
  \<^verbatim>\<open>_clear_task_state\<close>, run when \<^verbatim>\<open>_main_task\<close> leaves its resource stack:
  the websocket and the event loop are gone.
\<close>

definition clear_task_state :: "websocket_thread \<Rightarrow> websocket_thread" where
  "clear_task_state t = t\<lparr>t_ws := False\<rparr>"

text \<open>
  The except branch of \<^verbatim>\<open>_receive_messages\<close>, taken when receiving a frame fails:
  \<^verbatim>\<open>if self._ws is not None: self._terminate.set()\<close>, then \<^verbatim>\<open>break\<close>. With
  \<^verbatim>\<open>_terminate\<close> set, \<^verbatim>\<open>_main_task\<close> stops waiting, cancels the receive task and
  leaves its resource stack, which runs \<^verbatim>\<open>_clear_task_state\<close>; the thread ends. When
  \<^verbatim>\<open>_ws\<close> is already \<^verbatim>\<open>None\<close> the client is shutting the thread down itself.
\<close>

definition receive_messages_failed :: "websocket_thread \<Rightarrow> websocket_thread" where
  "receive_messages_failed t =
     (if t_ws t then clear_task_state (t\<lparr>terminate := True\<rparr>) else t)"

section \<open>Channels and remote calls\<close>

text \<open>
  What a channel endpoint contributes to the code of this file: its name and the
  creation payload (\<^verbatim>\<open>ChannelEndpoint\<close> itself is defined in \<^verbatim>\<open>json_api.py\<close>).
\<close>

record channel_endpoint =
  api_endpoint :: string
  creation_params :: payload

text \<open>
  \<^verbatim>\<open>SyncChannel\<close>: \<^verbatim>\<open>_is_finished\<close>, \<^verbatim>\<open>_rx_queue\<close> (the address of the queue object)
  and the \<^verbatim>\<open>ChannelHandler\<close> \<^verbatim>\<open>_api_channel\<close>, which holds the channel id and the
  endpoint. \<^verbatim>\<open>_send_json\<close> is the bound method of the websocket that created the
  channel, so the operations that send take the websocket as their state.
\<close>

record sync_channel =
  is_finished :: bool
  rx_queue :: nat
  channel_id :: nat
  endpoint :: channel_endpoint

definition SyncChannel_init :: "nat \<Rightarrow> nat \<Rightarrow> channel_endpoint \<Rightarrow> sync_channel" where
  "SyncChannel_init cid q ep =
     \<lparr>is_finished = False, rx_queue = q, channel_id = cid, endpoint = ep\<rparr>"

text \<open>
  Modelled from the spec: \<^verbatim>\<open>ChannelHandler\<close> (\<^verbatim>\<open>json_api.py\<close>, not among the
  sources). Spec 6 gives the envelopes \<^verbatim>\<open>channelCreate {channelId, endpoint,
  creationParameter}\<close> and \<^verbatim>\<open>channelCancel {channelId}\<close>; spec 4.5 and 7 give the
  handling of a received message: the \<^verbatim>\<open>message\<close> field of a \<^verbatim>\<open>channelSend\<close> frame
  is the payload, \<^verbatim>\<open>channelClose\<close> is the normal termination (no payload), the
  shutdown sentinel fails with \<^verbatim>\<open>Disconnected\<close>, and any other frame is a protocol
  violation.
\<close>

definition get_creation_message :: "sync_channel \<Rightarrow> frame" where
  "get_creation_message ch =
     ChannelCreate (channel_id ch) (api_endpoint (endpoint ch)) (creation_params (endpoint ch))"

definition get_cancel_message :: "sync_channel \<Rightarrow> frame" where
  "get_cancel_message ch = ChannelCancel (channel_id ch)"

fun ChannelHandler_handle_rx_message :: "rx_message \<Rightarrow> error + payload option" where
  "ChannelHandler_handle_rx_message None = Inl Disconnected"
| "ChannelHandler_handle_rx_message (Some (ChannelSend _ contents)) = Inr (Some contents)"
| "ChannelHandler_handle_rx_message (Some (ChannelClose _)) = Inr None"
| "ChannelHandler_handle_rx_message (Some _) = Inl ChannelError"

text \<open>
  Modelled from the spec: \<^verbatim>\<open>RemoteCallHandler\<close> (\<^verbatim>\<open>json_api.py\<close>, not among the
  sources). Spec 6: \<^verbatim>\<open>rpcCall {callId, endpoint, parameter}\<close>. Spec 4.4: \<^verbatim>\<open>rpcResult\<close>
  returns the payload, \<^verbatim>\<open>rpcError\<close> fails with \<^verbatim>\<open>RpcError\<close> carrying the error
  the server supplied, the shutdown sentinel fails with \<^verbatim>\<open>Disconnected\<close>; by spec 7
  any other frame is a protocol violation.
\<close>

definition get_rpc_message :: "nat \<Rightarrow> string \<Rightarrow> payload \<Rightarrow> frame" where
  "get_rpc_message cid ep params = RpcCall cid ep params"

fun RemoteCallHandler_handle_rx_message :: "rx_message \<Rightarrow> error + payload" where
  "RemoteCallHandler_handle_rx_message None = Inl Disconnected"
| "RemoteCallHandler_handle_rx_message (Some (RpcResult _ r)) = Inr r"
| "RemoteCallHandler_handle_rx_message (Some (RpcError _ e)) = Inl (RpcFailed e)"
| "RemoteCallHandler_handle_rx_message (Some _) = Inl ChannelError"

section \<open>The synchronous websocket\<close>

text \<open>
  \<^verbatim>\<open>SyncLMStudioWebsocket\<close>: the URL and authentication details, the thread
  \<^verbatim>\<open>_ws\<close> (\<^verbatim>\<open>None\<close> while disconnected), the multiplexer \<^verbatim>\<open>_mux\<close>. The queue
  objects shared by the multiplexer, the channels and the calls live in a heap
  (\<open>queues\<close>, allocated in order), and \<open>net\<close> logs the network events performed
  through this websocket.
\<close>

record lmstudio_websocket =
  ws_url :: string
  auth_details :: payload
  ws_thread :: "websocket_thread option"
  mux :: multiplexing_manager
  queues :: "nat \<Rightarrow> rx_message list"
  next_queue :: nat
  net :: "net_event list"

definition SyncLMStudioWebsocket_init :: "string \<Rightarrow> payload \<Rightarrow> lmstudio_websocket" where
  "SyncLMStudioWebsocket_init url auth =
     \<lparr>ws_url = url, auth_details = auth, ws_thread = None, mux = MultiplexingManager_init,
      queues = (\<lambda>_. []), next_queue = 0, net = []\<rparr>"

text \<open>\<^verbatim>\<open>queue.Queue()\<close>, \<^verbatim>\<open>put\<close> and \<^verbatim>\<open>get\<close> (\<open>None\<close>: the caller blocks).\<close>

definition new_queue :: "lmstudio_websocket \<Rightarrow> nat \<times> lmstudio_websocket" where
  "new_queue w =
     (next_queue w,
      w\<lparr>queues := (queues w)(next_queue w := []), next_queue := Suc (next_queue w)\<rparr>)"

definition queue_put :: "nat \<Rightarrow> rx_message \<Rightarrow> lmstudio_websocket \<Rightarrow> lmstudio_websocket" where
  "queue_put q message w = w\<lparr>queues := (queues w)(q := queues w q @ [message])\<rparr>"

definition queue_get :: "nat \<Rightarrow> lmstudio_websocket \<Rightarrow> (rx_message \<times> lmstudio_websocket) option" where
  "queue_get q w =
     (case queues w q of
        [] \<Rightarrow> None
      | message # rest \<Rightarrow> Some (message, w\<lparr>queues := (queues w)(q := rest)\<rparr>))"

text \<open>
  Modelled from the spec: \<^verbatim>\<open>_fail_if_connected\<close> and \<^verbatim>\<open>_ensure_connected(usage)\<close> of
  the base class \<^verbatim>\<open>LMStudioWebsocket\<close> (\<^verbatim>\<open>json_api.py\<close>, not among the sources): the
  first raises when the websocket is connected, the second when it is not.
\<close>

definition fail_if_connected :: "string \<Rightarrow> lmstudio_websocket \<Rightarrow> error + unit" where
  "fail_if_connected err_msg w =
     (if ws_thread w \<noteq> None then Inl (AlreadyConnected err_msg) else Inr ())"

definition ensure_connected :: "string \<Rightarrow> lmstudio_websocket \<Rightarrow> error + unit" where
  "ensure_connected usage w =
     (if ws_thread w = None then Inl (NotConnected usage) else Inr ())"

text \<open>
  \<^verbatim>\<open>connect\<close>: fail if connected; create the thread and let it connect; on failure
  raise the connection failure, the authentication failure, or the connection
  failure without a reason; on success store the thread in \<^verbatim>\<open>_ws\<close>.
\<close>

definition SyncLMStudioWebsocket_connect ::
  "server_reply \<Rightarrow> lmstudio_websocket \<Rightarrow> (error + unit) \<times> lmstudio_websocket" where
  "SyncLMStudioWebsocket_connect srv w =
     (case fail_if_connected ''Attempted to connect already connected websocket'' w of
        Inl e \<Rightarrow> (Inl e, w)
      | Inr _ \<Rightarrow>
          (case AsyncWebsocketThread_connect srv (ws_url w) (auth_details w)
                  AsyncWebsocketThread_init of
             (ok, t, events) \<Rightarrow>
               (if \<not> ok then
                  (if connection_failure t then (Inl ConnectError, w\<lparr>net := net w @ events\<rparr>)
                   else (case auth_failure t of
                           Some err \<Rightarrow> (Inl (AuthError err), w\<lparr>net := net w @ events\<rparr>)
                         | None \<Rightarrow> (Inl ConnectError, w\<lparr>net := net w @ events\<rparr>)))
                else (Inr (), w\<lparr>ws_thread := Some t, net := net w @ events\<rparr>))))"

text \<open>\<^verbatim>\<open>__enter__\<close>: \<^verbatim>\<open>if self._ws is None: self.connect()\<close>.\<close>

definition SyncLMStudioWebsocket_enter ::
  "server_reply \<Rightarrow> lmstudio_websocket \<Rightarrow> (error + unit) \<times> lmstudio_websocket" where
  "SyncLMStudioWebsocket_enter srv w =
     (if ws_thread w = None then SyncLMStudioWebsocket_connect srv w else (Inr (), w))"

text \<open>
  \<^verbatim>\<open>_enqueue_message\<close>, the callback the thread runs for every received frame:
  the frame goes to the queue the multiplexer maps it to, if any.
\<close>

definition enqueue_message :: "frame \<Rightarrow> lmstudio_websocket \<Rightarrow> bool \<times> lmstudio_websocket" where
  "enqueue_message message w =
     (case map_rx_message (mux w) message of
        None \<Rightarrow> (False, w)
      | Some q \<Rightarrow> (True, queue_put q (Some message) w))"

text \<open>
  \<^verbatim>\<open>_notify_client_termination\<close>: \<^verbatim>\<open>for rx_queue in self._mux.all_queues():
  rx_queue.put(None)\<close>.
\<close>

definition notify_client_termination :: "lmstudio_websocket \<Rightarrow> lmstudio_websocket" where
  "notify_client_termination w = fold (\<lambda>q. queue_put q None) (all_queues (mux w)) w"

text \<open>
  \<^verbatim>\<open>disconnect\<close>: \<^verbatim>\<open>ws = self._ws; self._ws = None\<close>; if there was a thread, the
  clients are notified and the thread is told to terminate and joined (the thread
  object is dropped afterwards, so its final state is not kept).
\<close>

definition SyncLMStudioWebsocket_disconnect :: "lmstudio_websocket \<Rightarrow> lmstudio_websocket" where
  "SyncLMStudioWebsocket_disconnect w =
     (case ws_thread w of
        None \<Rightarrow> w
      | Some t \<Rightarrow> notify_client_termination (w\<lparr>ws_thread := None\<rparr>))"

text \<open>
  \<^verbatim>\<open>_send_json\<close>: \<^verbatim>\<open>assert ws is not None\<close>, then the thread sends (and converts
  the exceptions).
\<close>

definition SyncLMStudioWebsocket_send_json ::
  "frame \<Rightarrow> lmstudio_websocket \<Rightarrow> (error + unit) \<times> lmstudio_websocket" where
  "SyncLMStudioWebsocket_send_json message w =
     (case ws_thread w of
        None \<Rightarrow> (Inl AssertionError, w)
      | Some t \<Rightarrow>
          (case AsyncWebsocketThread_send_json t message of
             (r, events) \<Rightarrow> (r, w\<lparr>net := net w @ events\<rparr>)))"

text \<open>
  \<^verbatim>\<open>_connect_to_endpoint\<close>: ensure the websocket is connected, then send the
  creation message of the channel.
\<close>

definition connect_to_endpoint ::
  "sync_channel \<Rightarrow> lmstudio_websocket \<Rightarrow> (error + unit) \<times> lmstudio_websocket" where
  "connect_to_endpoint channel w =
     (case ensure_connected ''open channel endpoints'' w of
        Inl e \<Rightarrow> (Inl e, w)
      | Inr _ \<Rightarrow> SyncLMStudioWebsocket_send_json (get_creation_message channel) w)"

text \<open>
  \<^verbatim>\<open>open_channel\<close> is a context manager:
  \<^verbatim>\<open>
    rx_queue = queue.Queue()
    with self._mux.assign_channel_id(rx_queue) as channel_id:
        channel = SyncChannel(channel_id, rx_queue, endpoint, self._send_json, ...)
        self._connect_to_endpoint(channel)
        yield channel
  \<close>
  Entering it runs the body up to the \<^verbatim>\<open>yield\<close>; an exception before the \<^verbatim>\<open>yield\<close>
  leaves the scope of the multiplexer on its way out. Leaving it resumes after the
  \<^verbatim>\<open>yield\<close>, where only the scope of the multiplexer is left.
\<close>

definition open_channel_enter ::
  "channel_endpoint \<Rightarrow> lmstudio_websocket \<Rightarrow> (error + sync_channel) \<times> lmstudio_websocket" where
  "open_channel_enter ep w =
     (case new_queue w of
        (q, w1) \<Rightarrow>
          (case assign_channel_id q (mux w1) of
             (cid, m) \<Rightarrow>
               (case connect_to_endpoint (SyncChannel_init cid q ep) (w1\<lparr>mux := m\<rparr>) of
                  (Inl e, w2) \<Rightarrow> (Inl e, w2\<lparr>mux := release_channel_id cid (mux w2)\<rparr>)
                | (Inr _, w2) \<Rightarrow> (Inr (SyncChannel_init cid q ep), w2))))"

definition open_channel_exit :: "sync_channel \<Rightarrow> lmstudio_websocket \<Rightarrow> lmstudio_websocket" where
  "open_channel_exit channel w = w\<lparr>mux := release_channel_id (channel_id channel) (mux w)\<rparr>"

text \<open>
  \<^verbatim>\<open>SyncChannel.cancel\<close>:
  \<^verbatim>\<open>
    if self._is_finished:
        return
    cancel_message = self._api_channel.get_cancel_message()
    self._send_json(cancel_message)
  \<close>
\<close>

definition SyncChannel_cancel ::
  "sync_channel \<Rightarrow> lmstudio_websocket \<Rightarrow> (error + unit) \<times> lmstudio_websocket" where
  "SyncChannel_cancel channel w =
     (if is_finished channel then (Inr (), w)
      else SyncLMStudioWebsocket_send_json (get_cancel_message channel) w)"

text \<open>
  \<^verbatim>\<open>SyncChannel.rx_stream\<close> is a generator:
  \<^verbatim>\<open>
    while not self._is_finished:
        message = self._rx_queue.get()
        contents = self._api_channel.handle_rx_message(message)
        if contents is None:
            self._is_finished = True
            break
        yield contents
  \<close>
  The loop is run on the finished flag and the content of the queue; it returns the
  items yielded, how the iteration ended, the flag and what is left in the queue.
  The iteration ends normally (\<open>StopIteration\<close>), with an exception (\<open>Raised\<close>), or
  it is suspended in \<^verbatim>\<open>get()\<close> on an empty queue (\<open>Blocked\<close>: nothing more is
  yielded until another message is put).
\<close>

datatype stream_end = StopIteration | Raised error | Blocked

fun rx_stream_loop ::
  "bool \<Rightarrow> rx_message list \<Rightarrow> payload list \<times> stream_end \<times> bool \<times> rx_message list" where
  "rx_stream_loop fin [] = (if fin then ([], StopIteration, fin, []) else ([], Blocked, fin, []))"
| "rx_stream_loop fin (message # rest) =
     (if fin then ([], StopIteration, fin, message # rest)
      else (case ChannelHandler_handle_rx_message message of
              Inl e \<Rightarrow> ([], Raised e, fin, rest)
            | Inr None \<Rightarrow> ([], StopIteration, True, rest)
            | Inr (Some contents) \<Rightarrow>
                (case rx_stream_loop fin rest of
                   (items, ending, fin', rest') \<Rightarrow> (contents # items, ending, fin', rest'))))"

definition SyncChannel_rx_stream ::
  "sync_channel \<Rightarrow> lmstudio_websocket \<Rightarrow>
     (payload list \<times> stream_end) \<times> sync_channel \<times> lmstudio_websocket" where
  "SyncChannel_rx_stream channel w =
     (case rx_stream_loop (is_finished channel) (queues w (rx_queue channel)) of
        (items, ending, fin, rest) \<Rightarrow>
          ((items, ending), channel\<lparr>is_finished := fin\<rparr>,
           w\<lparr>queues := (queues w)(rx_queue channel := rest)\<rparr>))"

text \<open>
  \<^verbatim>\<open>_send_call\<close>: ensure the websocket is connected, then send the \<^verbatim>\<open>rpcCall\<close>.
\<close>

definition send_call ::
  "nat \<Rightarrow> string \<Rightarrow> payload \<Rightarrow> lmstudio_websocket \<Rightarrow> (error + unit) \<times> lmstudio_websocket" where
  "send_call cid ep params w =
     (case ensure_connected ''send remote procedure call'' w of
        Inl e \<Rightarrow> (Inl e, w)
      | Inr _ \<Rightarrow> SyncLMStudioWebsocket_send_json (get_rpc_message cid ep params) w)"

text \<open>
  \<^verbatim>\<open>SyncRemoteCall.receive_result\<close>:
  \<^verbatim>\<open>
    message = self._rx_queue.get()
    return self._rpc.handle_rx_message(message)
  \<close>
  \<open>None\<close>: the queue is empty and the caller blocks.
\<close>

definition SyncRemoteCall_receive_result ::
  "nat \<Rightarrow> lmstudio_websocket \<Rightarrow> ((error + payload) \<times> lmstudio_websocket) option" where
  "SyncRemoteCall_receive_result q w =
     (case queue_get q w of
        None \<Rightarrow> None
      | Some (message, w') \<Rightarrow> Some (RemoteCallHandler_handle_rx_message message, w'))"

text \<open>
  What happens in the background while a caller waits on its queue: the receive task
  of the thread gets a frame (\<^verbatim>\<open>_process_next_message\<close> hands it to
  \<^verbatim>\<open>_enqueue_message\<close>), or receiving fails (the except branch of
  \<^verbatim>\<open>_receive_messages\<close>, which ends the loop), or the client disconnects the websocket
  (\<^verbatim>\<open>disconnect\<close>, from another thread of the caller). Frames are received only
  while the thread has its socket.
\<close>

datatype pump_event = Receive frame | ReceiveError | ClientDisconnect

fun receive_messages :: "pump_event list \<Rightarrow> lmstudio_websocket \<Rightarrow> lmstudio_websocket" where
  "receive_messages [] w = w"
| "receive_messages (Receive message # events) w =
     (case ws_thread w of
        None \<Rightarrow> receive_messages events w
      | Some t \<Rightarrow>
          (if t_ws t then receive_messages events (snd (enqueue_message message w))
           else receive_messages events w))"
| "receive_messages (ReceiveError # events) w =
     (case ws_thread w of
        None \<Rightarrow> receive_messages events w
      | Some t \<Rightarrow> receive_messages events (w\<lparr>ws_thread := Some (receive_messages_failed t)\<rparr>))"
| "receive_messages (ClientDisconnect # events) w =
     receive_messages events (SyncLMStudioWebsocket_disconnect w)"

text \<open>
  \<^verbatim>\<open>remote_call\<close>:
  \<^verbatim>\<open>
    rx_queue = queue.Queue()
    with self._mux.assign_call_id(rx_queue) as call_id:
        rpc = SyncRemoteCall(call_id, rx_queue, ...)
        self._send_call(rpc, endpoint, params)
        return rpc.receive_result()
  \<close>
  \<open>events\<close> is what happens in the background between the send and the return of
  \<^verbatim>\<open>get()\<close>. The result is \<open>None\<close> when the caller blocks in \<^verbatim>\<open>get()\<close> (the scope of
  the multiplexer is then never left).
\<close>

definition SyncLMStudioWebsocket_remote_call ::
  "string \<Rightarrow> payload \<Rightarrow> pump_event list \<Rightarrow> lmstudio_websocket \<Rightarrow>
     (error + payload) option \<times> lmstudio_websocket" where
  "SyncLMStudioWebsocket_remote_call ep params events w =
     (case new_queue w of
        (q, w1) \<Rightarrow>
          (case assign_call_id q (mux w1) of
             (cid, m) \<Rightarrow>
               (case send_call cid ep params (w1\<lparr>mux := m\<rparr>) of
                  (Inl e, w2) \<Rightarrow> (Some (Inl e), w2\<lparr>mux := release_call_id cid (mux w2)\<rparr>)
                | (Inr _, w2) \<Rightarrow>
                    (case SyncRemoteCall_receive_result q (receive_messages events w2) of
                       None \<Rightarrow> (None, receive_messages events w2)
                     | Some (r, w3) \<Rightarrow> (Some r, w3\<lparr>mux := release_call_id cid (mux w3)\<rparr>)))))"

section \<open>Sessions\<close>

text \<open>
  \<^verbatim>\<open>SyncSession\<close>: one per API namespace. It reads the host and the authentication
  details of its client (fixed when the client is created, so the session carries
  them), has the class attribute \<^verbatim>\<open>API_NAMESPACE\<close> and the websocket \<^verbatim>\<open>_lmsws\<close>
  (\<^verbatim>\<open>None\<close> until the session connects).
\<close>

record sync_session =
  client_api_host :: string
  client_auth_details :: payload
  api_namespace :: "string option"
  lmsws :: "lmstudio_websocket option"

text \<open>
  Modelled from the spec: \<^verbatim>\<open>ClientSession\<close> (\<^verbatim>\<open>json_api.py\<close>, not among the
  sources) gives the session its constructor, \<^verbatim>\<open>_fail_if_connected\<close> and
  \<^verbatim>\<open>_get_lmsws(usage)\<close>. Spec 3: a session starts without a transport and connects
  lazily on first use.
\<close>

definition SyncSession_init :: "string \<Rightarrow> payload \<Rightarrow> string option \<Rightarrow> sync_session" where
  "SyncSession_init host auth namespace =
     \<lparr>client_api_host = host, client_auth_details = auth, api_namespace = namespace,
      lmsws = None\<rparr>"

definition session_fail_if_connected :: "string \<Rightarrow> sync_session \<Rightarrow> error + unit" where
  "session_fail_if_connected err_msg s =
     (if lmsws s \<noteq> None then Inl (AlreadyConnected err_msg) else Inr ())"

definition get_lmsws :: "string \<Rightarrow> sync_session \<Rightarrow> error + lmstudio_websocket" where
  "get_lmsws usage s = (case lmsws s of None \<Rightarrow> Inl (NotConnected usage) | Some w \<Rightarrow> Inr w)"

text \<open>
  \<^verbatim>\<open>SyncSession.connect\<close>:
  \<^verbatim>\<open>
    self._fail_if_connected("Attempted to connect already connected session")
    api_host = self._client.api_host
    namespace = self.API_NAMESPACE
    if namespace is None:
        raise LMStudioClientError(...)
    session_url = f"ws://{api_host}/{namespace}"
    resources = self._resources
    self._lmsws = lmsws = resources.enter_context(
        SyncLMStudioWebsocket(session_url, self._client._auth_details))
    return lmsws
  \<close>
  When entering the websocket fails, nothing is assigned and the websocket object is
  dropped.
\<close>

definition SyncSession_connect ::
  "server_reply \<Rightarrow> sync_session \<Rightarrow> (error + unit) \<times> sync_session" where
  "SyncSession_connect srv s =
     (case session_fail_if_connected ''Attempted to connect already connected session'' s of
        Inl e \<Rightarrow> (Inl e, s)
      | Inr _ \<Rightarrow>
          (case api_namespace s of
             None \<Rightarrow> (Inl (LMStudioClientError ''No API namespace defined''), s)
           | Some namespace \<Rightarrow>
               (case SyncLMStudioWebsocket_enter srv
                       (SyncLMStudioWebsocket_init
                          (''ws://'' @ client_api_host s @ ''/'' @ namespace)
                          (client_auth_details s)) of
                  (Inl e, w) \<Rightarrow> (Inl e, s)
                | (Inr _, w) \<Rightarrow> (Inr (), s\<lparr>lmsws := Some w\<rparr>))))"

text \<open>\<^verbatim>\<open>_ensure_connected\<close>: \<^verbatim>\<open>if self._lmsws is None: self.connect()\<close>.\<close>

definition SyncSession_ensure_connected ::
  "server_reply \<Rightarrow> sync_session \<Rightarrow> (error + unit) \<times> sync_session" where
  "SyncSession_ensure_connected srv s =
     (if lmsws s = None then SyncSession_connect srv s else (Inr (), s))"

text \<open>
  \<^verbatim>\<open>SyncSession.remote_call\<close>: ensure connected, get the websocket, make the call
  on it.
\<close>

definition SyncSession_remote_call ::
  "server_reply \<Rightarrow> string \<Rightarrow> payload \<Rightarrow> pump_event list \<Rightarrow> sync_session \<Rightarrow>
     (error + payload) option \<times> sync_session" where
  "SyncSession_remote_call srv ep params events s =
     (case SyncSession_ensure_connected srv s of
        (Inl e, s1) \<Rightarrow> (Some (Inl e), s1)
      | (Inr _, s1) \<Rightarrow>
          (case get_lmsws ''make remote calls'' s1 of
             Inl e \<Rightarrow> (Some (Inl e), s1)
           | Inr w \<Rightarrow>
               (case SyncLMStudioWebsocket_remote_call ep params events w of
                  (r, w') \<Rightarrow> (r, s1\<lparr>lmsws := Some w'\<rparr>))))"

text \<open>
  \<^verbatim>\<open>_create_channel\<close> is a context manager: ensure connected, get the websocket,
  and open the channel on it for the time of the scope.
\<close>

definition create_channel_enter ::
  "server_reply \<Rightarrow> channel_endpoint \<Rightarrow> sync_session \<Rightarrow> (error + sync_channel) \<times> sync_session" where
  "create_channel_enter srv ep s =
     (case SyncSession_ensure_connected srv s of
        (Inl e, s1) \<Rightarrow> (Inl e, s1)
      | (Inr _, s1) \<Rightarrow>
          (case get_lmsws ''create channels'' s1 of
             Inl e \<Rightarrow> (Inl e, s1)
           | Inr w \<Rightarrow>
               (case open_channel_enter ep w of
                  (r, w') \<Rightarrow> (r, s1\<lparr>lmsws := Some w'\<rparr>))))"

definition create_channel_exit :: "sync_channel \<Rightarrow> sync_session \<Rightarrow> sync_session" where
  "create_channel_exit channel s =
     (case lmsws s of
        None \<Rightarrow> s
      | Some w \<Rightarrow> s\<lparr>lmsws := Some (open_channel_exit channel w)\<rparr>)"

text \<open>
  A session operation that needs the connection, and the run of a sequence of them:
  the shape of any client program over one session.
\<close>

datatype session_operation =
    OpRemoteCall string payload "pump_event list"
  | OpCreateChannel channel_endpoint

fun run_operation :: "server_reply \<Rightarrow> session_operation \<Rightarrow> sync_session \<Rightarrow> sync_session" where
  "run_operation srv (OpRemoteCall ep params events) s =
     snd (SyncSession_remote_call srv ep params events s)"
| "run_operation srv (OpCreateChannel ep) s = snd (create_channel_enter srv ep s)"

text \<open>The network events of a session, and how many of them open a socket or authenticate.\<close>

definition session_net :: "sync_session \<Rightarrow> net_event list" where
  "session_net s = (case lmsws s of None \<Rightarrow> [] | Some w \<Rightarrow> net w)"

fun is_connect :: "net_event \<Rightarrow> bool" where
  "is_connect (NetConnect _) = True"
| "is_connect _ = False"

fun is_handshake :: "net_event \<Rightarrow> bool" where
  "is_handshake (NetAuth _) = True"
| "is_handshake _ = False"

section \<open>Prediction streams\<close>

text \<open>
  \<^verbatim>\<open>PredictionStream\<close>: the channel context manager it was given (the
  \<^verbatim>\<open>_create_channel\<close> of its session for its endpoint), the channel \<^verbatim>\<open>_channel\<close>
  once started, the scopes entered through \<^verbatim>\<open>_resources\<close>, and the flags of the base
  class.

  Modelled from the spec: \<^verbatim>\<open>PredictionStreamBase\<close> (\<^verbatim>\<open>json_api.py\<close>, not among the
  sources) holds \<^verbatim>\<open>_is_started\<close>, \<^verbatim>\<open>_is_finished\<close> and the error, all unset by
  \<^verbatim>\<open>_init_prediction\<close>; \<^verbatim>\<open>_mark_started\<close> sets the first flag, \<^verbatim>\<open>_mark_cancelled\<close>
  records that cancellation was requested, \<^verbatim>\<open>_set_error\<close> records the error.
\<close>

record prediction_stream =
  stream_endpoint :: channel_endpoint
  stream_channel :: "sync_channel option"
  stream_resources :: "sync_channel list"
  stream_is_started :: bool
  stream_is_finished :: bool
  stream_is_cancelled :: bool
  stream_error :: "error option"

definition PredictionStream_init :: "channel_endpoint \<Rightarrow> prediction_stream" where
  "PredictionStream_init ep =
     \<lparr>stream_endpoint = ep, stream_channel = None, stream_resources = [],
      stream_is_started = False, stream_is_finished = False, stream_is_cancelled = False,
      stream_error = None\<rparr>"

definition mark_started :: "prediction_stream \<Rightarrow> prediction_stream" where
  "mark_started p = p\<lparr>stream_is_started := True\<rparr>"

definition mark_cancelled :: "prediction_stream \<Rightarrow> prediction_stream" where
  "mark_cancelled p = p\<lparr>stream_is_cancelled := True\<rparr>"

definition set_error :: "error \<Rightarrow> prediction_stream \<Rightarrow> prediction_stream" where
  "set_error e p = p\<lparr>stream_error := Some e\<rparr>"

text \<open>
  \<^verbatim>\<open>PredictionStream.start\<close>:
  \<^verbatim>\<open>
    if self._is_finished:
        raise LMStudioRuntimeError("Prediction result has already been received.")
    if self._is_started:
        raise LMStudioRuntimeError("Prediction request has already been sent.")
    self._channel = self._resources.enter_context(self._channel_cm)
    self._mark_started()
  \<close>
\<close>

definition PredictionStream_start ::
  "server_reply \<Rightarrow> prediction_stream \<Rightarrow> sync_session \<Rightarrow>
     (error + unit) \<times> prediction_stream \<times> sync_session" where
  "PredictionStream_start srv p s =
     (if stream_is_finished p then
        (Inl (LMStudioRuntimeError ''Prediction result has already been received.''), p, s)
      else if stream_is_started p then
        (Inl (LMStudioRuntimeError ''Prediction request has already been sent.''), p, s)
      else
        (case create_channel_enter srv (stream_endpoint p) s of
           (Inl e, s') \<Rightarrow> (Inl e, p, s')
         | (Inr channel, s') \<Rightarrow>
             (Inr (),
              mark_started (p\<lparr>stream_channel := Some channel,
                              stream_resources := channel # stream_resources p\<rparr>),
              s')))"

text \<open>
  \<^verbatim>\<open>PredictionStream.close\<close>:
  \<^verbatim>\<open>
    if self._is_started and not self._is_finished:
        self._set_error(LMStudioCancelledError(
            "Prediction cancelled unexpectedly: please use .cancel()"))
    self._channel = None
    self._resources.close()
  \<close>
  Closing the resources leaves every scope entered, last first.
\<close>

definition PredictionStream_close ::
  "prediction_stream \<Rightarrow> sync_session \<Rightarrow> prediction_stream \<times> sync_session" where
  "PredictionStream_close p s =
     ((if stream_is_started p \<and> \<not> stream_is_finished p then
         set_error (LMStudioCancelledError
                      ''Prediction cancelled unexpectedly: please use .cancel()'') p
       else p)\<lparr>stream_channel := None, stream_resources := []\<rparr>,
      fold create_channel_exit (stream_resources p) s)"

text \<open>
  \<^verbatim>\<open>PredictionStream.cancel\<close>:
  \<^verbatim>\<open>
    if not self._is_finished and self._channel:
        self._mark_cancelled()
        self._channel.cancel()
  \<close>
  The channel sends through the websocket that opened it, the one of the session.
\<close>

definition PredictionStream_cancel ::
  "prediction_stream \<Rightarrow> sync_session \<Rightarrow> (error + unit) \<times> prediction_stream \<times> sync_session" where
  "PredictionStream_cancel p s =
     (case stream_channel p of
        None \<Rightarrow> (Inr (), p, s)
      | Some channel \<Rightarrow>
          (if stream_is_finished p then (Inr (), p, s)
           else (case lmsws s of
                   None \<Rightarrow> (Inl AssertionError, mark_cancelled p, s)
                 | Some w \<Rightarrow>
                     (case SyncChannel_cancel channel w of
                        (r, w') \<Rightarrow> (r, mark_cancelled p, s\<lparr>lmsws := Some w'\<rparr>)))))"

section \<open>The client and the default client\<close>

text \<open>
  \<^verbatim>\<open>Client\<close>: the host, the authentication details and the sessions by namespace.

  Modelled from the spec: \<^verbatim>\<open>ClientBase.__init__\<close> (\<^verbatim>\<open>json_api.py\<close>, not among the
  sources). Spec 6: the host defaults to \<^verbatim>\<open>127.0.0.1:1234\<close> and can be overridden by
  the caller; the authentication identifier and passkey are generated per client
  (\<open>auth\<close> is what was generated).
\<close>

record client =
  api_host :: string
  client_auth :: payload
  sessions :: "(string \<times> sync_session) list"

definition Client_init :: "payload \<Rightarrow> string option \<Rightarrow> client" where
  "Client_init auth host =
     \<lparr>api_host = (case host of None \<Rightarrow> ''127.0.0.1:1234'' | Some h \<Rightarrow> h),
      client_auth = auth, sessions = []\<rparr>"

text \<open>
  \<^verbatim>\<open>_get_session(cls)\<close>: the session stored for the namespace of the class, or a new
  one, stored (and pushed on the resources of the client) before it is returned.
\<close>

definition get_session :: "string \<Rightarrow> client \<Rightarrow> sync_session \<times> client" where
  "get_session namespace c =
     (case map_of (sessions c) namespace of
        Some s \<Rightarrow> (s, c)
      | None \<Rightarrow>
          (SyncSession_init (api_host c) (client_auth c) (Some namespace),
           c\<lparr>sessions := sessions c @
                [(namespace, SyncSession_init (api_host c) (client_auth c) (Some namespace))]\<rparr>))"

definition client_net :: "client \<Rightarrow> net_event list" where
  "client_net c = concat (map (\<lambda>ns. session_net (snd ns)) (sessions c))"

text \<open>
  \<^verbatim>\<open>get_default_client\<close>, on the module variable \<^verbatim>\<open>_default_client\<close>:
  \<^verbatim>\<open>
    global _default_client
    if _default_client is None:
        _default_client = Client(api_host)
    elif api_host is not None:
        raise LMStudioClientError(
            "Default session already connected, cannot set API host.")
    return _default_client
  \<close>
  The function returns its result and the new value of the variable.
\<close>

definition get_default_client ::
  "payload \<Rightarrow> string option \<Rightarrow> client option \<Rightarrow> (error + client) \<times> client option" where
  "get_default_client auth host default_client =
     (case default_client of
        None \<Rightarrow> (Inr (Client_init auth host), Some (Client_init auth host))
      | Some c \<Rightarrow>
          (case host of
             Some _ \<Rightarrow>
               (Inl (LMStudioClientError
                       ''Default session already connected, cannot set API host.''),
                Some c)
           | None \<Rightarrow> (Inr c, Some c)))"

section \<open>The tool-use loop \<open>LLM.act\<close>\<close>

text \<open>
  The data \<^verbatim>\<open>act\<close> handles: a tool call request (id, tool name, arguments), the
  result of a tool call (content and the id of the request it answers), the events of
  a prediction (of which \<^verbatim>\<open>act\<close> tells apart only the tool call events), and the
  chat with the two operations \<^verbatim>\<open>act\<close> calls on it.
\<close>

record tool_call_request =
  request_id :: string
  request_name :: string
  request_arguments :: payload

record tool_result =
  tool_call_id :: string
  content :: string

datatype prediction_rx_event =
    PredictionToolCallEvent tool_call_request
  | PredictionFragmentEvent string
  | PredictionOtherEvent

type_synonym prediction = string

datatype chat_message =
    UserMessage string
  | AssistantResponse prediction "tool_call_request list"
  | ToolResultMessage "tool_result list"

type_synonym chat = "chat_message list"

text \<open>
  Modelled from the spec: \<^verbatim>\<open>Chat\<close> (\<^verbatim>\<open>history.py\<close>, not among the sources). Spec 1
  and 4.6.3: the core appends the assistant response (with its tool call requests)
  and the tool results message to the chat. \<^verbatim>\<open>Chat.from_history\<close> is taken to give
  the chat it is handed.
\<close>

definition add_assistant_response :: "prediction \<Rightarrow> tool_call_request list \<Rightarrow> chat \<Rightarrow> chat" where
  "add_assistant_response pr requests c = c @ [AssistantResponse pr requests]"

definition add_tool_results :: "tool_result list \<Rightarrow> chat \<Rightarrow> chat" where
  "add_tool_results results c = c @ [ToolResultMessage results]"

text \<open>
  The \<^verbatim>\<open>ChatResponseEndpoint\<close> of a round, as \<^verbatim>\<open>act\<close> constructs it: the chat so far
  and the tool definitions, or no tool definitions (\<^verbatim>\<open>(None, None)\<close>).
\<close>

record chat_response_endpoint =
  endpoint_chat :: chat
  endpoint_tools :: "string list option"

text \<open>
  A future of the worker pool holds the outcome of the tool call submitted to it:
  \<^verbatim>\<open>fut.result()\<close> returns the result of the call or raises its exception. A future
  is named by the outcome it holds.
\<close>

type_synonym future = "error + tool_result"

text \<open>
  What \<^verbatim>\<open>act\<close> calls and does not define; the source file holds none of these, so
  each is a parameter, free to return or to raise.
  \<^item> \<open>parse_tools\<close> is \<^verbatim>\<open>ChatResponseEndpoint.parse_tools(tools)\<close>: the tool arguments
    given to the endpoints, or the exception it raises.
  \<^item> \<open>predict\<close> is the prediction of a round: the events
    \<^verbatim>\<open>prediction_stream._iter_events()\<close> yields for the endpoint and the result of
    \<^verbatim>\<open>prediction_stream.result()\<close>, or the exception either raises.
  \<^item> \<open>call_tool\<close> is the outcome of the callable
    \<^verbatim>\<open>endpoint.request_tool_call(request)\<close> once the pool has run it.
  \<^item> \<open>as_completed\<close> is \<^verbatim>\<open>concurrent.futures.as_completed\<close>: the order in which it
    yields the futures it is given. The code does not control that order: futures
    that have already finished are yielded first, in the iteration order of a set,
    the others as they finish.
  \<^item> \<open>handle_invalid_tool_request\<close> is \<^verbatim>\<open>endpoint._handle_invalid_tool_request(err_msg)\<close>,
    called without a request: the string it returns, or the exception it raises.
  \<^item> \<open>has_on_message\<close> tells whether the caller gave an \<^verbatim>\<open>on_message\<close> callback.

  The callbacks \<^verbatim>\<open>on_round_start\<close>, \<^verbatim>\<open>on_round_end\<close>, \<^verbatim>\<open>on_prediction_completed\<close> and
  \<^verbatim>\<open>on_message\<close> run under \<^verbatim>\<open>sdk_callback_invocation\<close> (spec 7: an exception of a
  callback is logged and does not end the operation) and change nothing that \<^verbatim>\<open>act\<close>
  reads; the duration is wall-clock time. Both are left out.
\<close>

record act_env =
  parse_tools :: "string list \<Rightarrow> error + string list"
  predict :: "chat_response_endpoint \<Rightarrow> error + (prediction_rx_event list \<times> prediction)"
  call_tool :: "chat_response_endpoint \<Rightarrow> tool_call_request \<Rightarrow> future"
  as_completed :: "future list \<Rightarrow> future list"
  handle_invalid_tool_request :: "chat_response_endpoint \<Rightarrow> string \<Rightarrow> error + string"
  has_on_message :: bool

text \<open>
  One record per round that got as far as its chat update: its index, the endpoint
  constructed for it, the result of the prediction, the tool call requests received,
  the tool results collected, and the message given to
  \<^verbatim>\<open>endpoint._handle_invalid_tool_request\<close>, if it was called.
\<close>

record round_record =
  rr_round_index :: int
  rr_endpoint :: chat_response_endpoint
  rr_prediction :: prediction
  rr_tool_call_requests :: "tool_call_request list"
  rr_tool_results :: "tool_result list"
  rr_invalid_tool_request :: "string option"

record act_state =
  agent_chat :: chat
  round_index :: "int option"
  rounds_log :: "round_record list"

text \<open>
  The tool call requests among the events of a round, in the order received:
  \<^verbatim>\<open>
    for event in prediction_stream._iter_events():
        if isinstance(event, PredictionToolCallEvent):
            tool_call_request = event.arg
            tool_call_requests.append(tool_call_request)
            tool_call = endpoint.request_tool_call(tool_call_request)
            pending_tool_calls.append(pool.submit(tool_call))
  \<close>
\<close>

fun tool_call_requests_of :: "prediction_rx_event list \<Rightarrow> tool_call_request list" where
  "tool_call_requests_of [] = []"
| "tool_call_requests_of (PredictionToolCallEvent r # events) = r # tool_call_requests_of events"
| "tool_call_requests_of (_ # events) = tool_call_requests_of events"

text \<open>
  \<^verbatim>\<open>[fut.result() for fut in futures]\<close>: the results in the order of the futures, or
  the exception of the first future that raises.
\<close>

fun future_results :: "future list \<Rightarrow> error + tool_result list" where
  "future_results [] = Inr []"
| "future_results (Inl e # futs) = Inl e"
| "future_results (Inr x # futs) =
     (case future_results futs of Inl e \<Rightarrow> Inl e | Inr xs \<Rightarrow> Inr (x # xs))"

text \<open>
  The body of the loop for round \<open>i\<close>. It returns whether the loop is left
  (\<^verbatim>\<open>break\<close>), or the exception raised, and the state.
  \<^verbatim>\<open>
    endpoint = ChatResponseEndpoint(self.identifier, agent_chat, ...,
        *(llm_tool_args if round_index != final_round_index else (None, None)))
    ...
    prediction = prediction_stream.result()
    if pending_tool_calls:
        tool_results = [fut.result() for fut in as_completed(pending_tool_calls)]
        requests_message = agent_chat.add_assistant_response(prediction, tool_call_requests)
        results_message = agent_chat.add_tool_results(tool_results)
        ...
    elif on_message is not None:
        on_message(agent_chat.add_assistant_response(prediction))
    if not tool_call_requests:
        break
    if round_index == final_round_index:
        err_msg = "Model requested tool use on final prediction round."
        endpoint._handle_invalid_tool_request(err_msg)
        break
  \<close>
  An exception of the prediction or of a future leaves the chat as it was; an
  exception of \<^verbatim>\<open>_handle_invalid_tool_request\<close> comes after the chat update.
\<close>

definition act_round ::
  "act_env \<Rightarrow> string list \<Rightarrow> int \<Rightarrow> int \<Rightarrow> act_state \<Rightarrow> (error + bool) \<times> act_state" where
  "act_round env llm_tool_args final_round_index i st =
     (let ep = \<lparr>endpoint_chat = agent_chat st,
                endpoint_tools = (if i \<noteq> final_round_index then Some llm_tool_args else None)\<rparr>
      in case predict env ep of
           Inl e \<Rightarrow> (Inl e, st\<lparr>round_index := Some i\<rparr>)
         | Inr (events, pr) \<Rightarrow>
             (let requests = tool_call_requests_of events;
                  pending_tool_calls = map (call_tool env ep) requests
              in case (if pending_tool_calls \<noteq> []
                       then future_results (as_completed env pending_tool_calls)
                       else Inr []) of
                   Inl e \<Rightarrow> (Inl e, st\<lparr>round_index := Some i\<rparr>)
                 | Inr tool_results \<Rightarrow>
                     (let new_chat =
                            (if pending_tool_calls \<noteq> [] then
                               add_tool_results tool_results
                                 (add_assistant_response pr requests (agent_chat st))
                             else if has_on_message env then
                               add_assistant_response pr [] (agent_chat st)
                             else agent_chat st);
                          err_msg = ''Model requested tool use on final prediction round.'';
                          st' = \<lparr>agent_chat = new_chat, round_index = Some i,
                                 rounds_log = rounds_log st @
                                   [\<lparr>rr_round_index = i, rr_endpoint = ep, rr_prediction = pr,
                                     rr_tool_call_requests = requests,
                                     rr_tool_results = tool_results,
                                     rr_invalid_tool_request =
                                       (if requests \<noteq> [] \<and> i = final_round_index
                                        then Some err_msg else None)\<rparr>]\<rparr>
                      in if requests = [] then (Inr True, st')
                         else if i = final_round_index then
                           (case handle_invalid_tool_request env ep err_msg of
                              Inl e \<Rightarrow> (Inl e, st')
                            | Inr _ \<Rightarrow> (Inr True, st'))
                         else (Inr False, st'))))"

text \<open>
  \<^verbatim>\<open>for round_index in range(max_prediction_rounds)\<close>: the loop over the round
  indices that are left.
\<close>

fun act_for ::
  "act_env \<Rightarrow> string list \<Rightarrow> int \<Rightarrow> int list \<Rightarrow> act_state \<Rightarrow> (error + unit) \<times> act_state" where
  "act_for env llm_tool_args final_round_index [] st = (Inr (), st)"
| "act_for env llm_tool_args final_round_index (i # round_counter) st =
     (case act_round env llm_tool_args final_round_index i st of
        (Inl e, st') \<Rightarrow> (Inl e, st')
      | (Inr leave, st') \<Rightarrow>
          (if leave then (Inr (), st')
           else act_for env llm_tool_args final_round_index round_counter st'))"

text \<open>
  \<^verbatim>\<open>for round_index in itertools.count()\<close>: the loop without a limit, from round
  \<open>i\<close> on. It need not end; \<open>None\<close> is the run that never returns.
\<close>

partial_function (option) act_count ::
  "act_env \<Rightarrow> string list \<Rightarrow> int \<Rightarrow> int \<Rightarrow> act_state \<Rightarrow> ((error + unit) \<times> act_state) option" where
  "act_count env llm_tool_args final_round_index i st =
     (case act_round env llm_tool_args final_round_index i st of
        (Inl e, st') \<Rightarrow> Some (Inl e, st')
      | (Inr leave, st') \<Rightarrow>
          (if leave then Some (Inr (), st')
           else act_count env llm_tool_args final_round_index (i + 1) st'))"

text \<open>
  After the loop: \<^verbatim>\<open>num_rounds = round_index + 1\<close> and
  \<^verbatim>\<open>return ActResult(rounds=num_rounds, total_time_seconds=duration)\<close>. The result
  is the number of rounds; a loop variable that was never bound cannot be read.
\<close>

definition act_result :: "(error + unit) \<times> act_state \<Rightarrow> (error + int) \<times> act_state" where
  "act_result r =
     (case r of
        (Inl e, st) \<Rightarrow> (Inl e, st)
      | (Inr _, st) \<Rightarrow>
          (case round_index st of
             None \<Rightarrow> (Inl UnboundLocalError, st)
           | Some i \<Rightarrow> (Inr (i + 1), st)))"

text \<open>
  \<^verbatim>\<open>repr\<close> of a Python \<^verbatim>\<open>int\<close>: its decimal digits, after a minus sign when it is
  negative.
\<close>

fun decimal_digits :: "nat \<Rightarrow> string" where
  "decimal_digits n =
     (if n < 10 then [''0123456789'' ! n]
      else decimal_digits (n div 10) @ [''0123456789'' ! (n mod 10)])"

declare decimal_digits.simps [simp del]

definition repr_int :: "int \<Rightarrow> string" where
  "repr_int k = (if k < 0 then CHR ''-'' # decimal_digits (nat (- k)) else decimal_digits (nat k))"

text \<open>
  \<^verbatim>\<open>LLM.act\<close>:
  \<^verbatim>\<open>
    agent_chat: Chat = Chat.from_history(chat)
    if max_prediction_rounds is not None:
        if max_prediction_rounds < 1:
            raise LMStudioValueError(
                f"Max prediction rounds must be at least 1 ({max_prediction_rounds!r} given)")
        round_counter = range(max_prediction_rounds)
        final_round_index = max_prediction_rounds - 1
    else:
        final_round_index = -1
        round_counter = itertools.count()
    llm_tool_args = ChatResponseEndpoint.parse_tools(tools)
  \<close>
  followed by the loop and the result. \<open>None\<close> is the call that never returns.
\<close>

definition LLM_act ::
  "act_env \<Rightarrow> chat \<Rightarrow> string list \<Rightarrow> int option \<Rightarrow> ((error + int) \<times> act_state) option" where
  "LLM_act env history tools max_prediction_rounds =
     (let st = \<lparr>agent_chat = history, round_index = None, rounds_log = []\<rparr>
      in case max_prediction_rounds of
           Some k \<Rightarrow>
             (if k < 1 then
                Some (Inl (LMStudioValueError
                        (''Max prediction rounds must be at least 1 ('' @ repr_int k
                           @ '' given)'')), st)
              else (case parse_tools env tools of
                      Inl e \<Rightarrow> Some (Inl e, st)
                    | Inr llm_tool_args \<Rightarrow>
                        Some (act_result
                                (act_for env llm_tool_args (k - 1) (map int [0..<nat k]) st))))
         | None \<Rightarrow>
             (case parse_tools env tools of
                Inl e \<Rightarrow> Some (Inl e, st)
              | Inr llm_tool_args \<Rightarrow>
                  map_option act_result (act_count env llm_tool_args (- 1) 0 st)))"

section \<open>Vocabulary of the properties\<close>

text \<open>
  A websocket is working when its thread has its socket and the link still accepts
  frames: every send then succeeds.
\<close>

definition working :: "lmstudio_websocket \<Rightarrow> bool" where
  "working w = (case ws_thread w of None \<Rightarrow> False | Some t \<Rightarrow> t_ws t \<and> link_ok t)"

text \<open>
  The queues and call ids registered with the multiplexer were allocated before:
  the invariant of the allocation counters.
\<close>

definition wf_websocket :: "lmstudio_websocket \<Rightarrow> bool" where
  "wf_websocket w =
     ((\<forall>kq \<in> set (open_channels (mux w)). snd kq < next_queue w) \<and>
      (\<forall>kq \<in> set (pending_calls (mux w)). fst kq < next_call_id (mux w) \<and> snd kq < next_queue w))"

text \<open>
  The websocket at the moment \<^verbatim>\<open>remote_call\<close> has sent its \<^verbatim>\<open>rpcCall\<close> and starts to
  wait: the queue is allocated, the call id registered, the frame sent.
\<close>

definition awaiting_call :: "string \<Rightarrow> payload \<Rightarrow> lmstudio_websocket \<Rightarrow> lmstudio_websocket" where
  "awaiting_call ep params w =
     snd (send_call (next_call_id (mux w)) ep params
            ((snd (new_queue w))\<lparr>mux := snd (assign_call_id (next_queue w) (mux w))\<rparr>))"

text \<open>The three messages that conclude the call with id \<open>cid\<close>.\<close>

definition call_frame :: "nat \<Rightarrow> rx_message \<Rightarrow> bool" where
  "call_frame cid message =
     (message = None \<or> (\<exists>r. message = Some (RpcResult cid r))
      \<or> (\<exists>e. message = Some (RpcError cid e)))"

text \<open>
  The invariant of the queue \<open>q\<close> of the call \<open>cid\<close> while the call waits: it holds
  only messages that conclude the call, and the multiplexer maps nothing else to it.
\<close>

definition call_inv :: "nat \<Rightarrow> nat \<Rightarrow> lmstudio_websocket \<Rightarrow> bool" where
  "call_inv cid q w =
     ((\<forall>message \<in> set (queues w q). call_frame cid message) \<and>
      (\<forall>kq \<in> set (open_channels (mux w)). snd kq \<noteq> q) \<and>
      (\<forall>kq \<in> set (pending_calls (mux w)). snd kq = q \<longrightarrow> fst kq = cid))"

text \<open>\<^verbatim>\<open>cancel()\<close> called \<open>n\<close> times in a row, and the \<^verbatim>\<open>channelCancel\<close> frames of a channel on the wire.\<close>

fun cancel_repeatedly :: "nat \<Rightarrow> sync_channel \<Rightarrow> lmstudio_websocket \<Rightarrow> lmstudio_websocket" where
  "cancel_repeatedly 0 channel w = w"
| "cancel_repeatedly (Suc n) channel w =
     cancel_repeatedly n channel (snd (SyncChannel_cancel channel w))"

definition cancel_frames :: "sync_channel \<Rightarrow> lmstudio_websocket \<Rightarrow> nat" where
  "cancel_frames channel w =
     length (filter (\<lambda>e. e = NetSend (ChannelCancel (channel_id channel))) (net w))"

text \<open>
  What holds of the record of every round of \<^verbatim>\<open>act\<close> with the tool arguments
  \<open>tools\<close> and the final round index \<open>fri\<close>: the endpoint got the tool arguments
  unless the round is the final one, and the invalid tool request was signalled
  exactly when the final round received a tool call request.
\<close>

definition round_ok :: "string list \<Rightarrow> int \<Rightarrow> round_record \<Rightarrow> bool" where
  "round_ok tools fri rr =
     (endpoint_tools (rr_endpoint rr) = (if rr_round_index rr \<noteq> fri then Some tools else None)
      \<and> rr_invalid_tool_request rr =
          (if rr_tool_call_requests rr \<noteq> [] \<and> rr_round_index rr = fri
           then Some ''Model requested tool use on final prediction round.'' else None))"

text \<open>
  The messages a round appends to the chat: the assistant response with the tool
  call requests followed by the tool results message when there were requests; the
  plain assistant response when there were none and the caller listens to messages;
  nothing otherwise.
\<close>

definition round_messages :: "act_env \<Rightarrow> round_record \<Rightarrow> chat_message list" where
  "round_messages env rr =
     (if rr_tool_call_requests rr \<noteq> [] then
        [AssistantResponse (rr_prediction rr) (rr_tool_call_requests rr),
         ToolResultMessage (rr_tool_results rr)]
      else if has_on_message env then [AssistantResponse (rr_prediction rr) []]
      else [])"

text \<open>
  The record of a round is the record of a prediction for its endpoint, and its tool
  results are the results of the futures of its tool calls in the order in which
  \<^verbatim>\<open>as_completed\<close> yielded them.
\<close>

definition results_yielded :: "act_env \<Rightarrow> round_record \<Rightarrow> bool" where
  "results_yielded env rr =
     ((\<exists>events. predict env (rr_endpoint rr) = Inr (events, rr_prediction rr)
          \<and> rr_tool_call_requests rr = tool_call_requests_of events)
      \<and> (if rr_tool_call_requests rr = [] then rr_tool_results rr = []
         else map Inr (rr_tool_results rr) =
                as_completed env
                  (map (call_tool env (rr_endpoint rr)) (rr_tool_call_requests rr))))"

text \<open>
  The invariant of the loop of \<^verbatim>\<open>act\<close> started on the chat \<open>history\<close>: the chat is
  the history followed by the messages of the rounds recorded, in order.
\<close>

definition chat_inv :: "act_env \<Rightarrow> chat \<Rightarrow> act_state \<Rightarrow> bool" where
  "chat_inv env history st =
     (agent_chat st = history @ concat (map (round_messages env) (rounds_log st))
      \<and> (\<forall>rr \<in> set (rounds_log st). results_yielded env rr))"

subsection \<open>Concrete inputs\<close>

text \<open>
  A websocket of the \<^verbatim>\<open>llm\<close> namespace connected to a server that accepts it, a
  prediction endpoint, the channel the first \<^verbatim>\<open>open_channel\<close> yields, and the websocket
  after that channel was opened and then received: a message and the close of the
  channel; a message, then the client disconnected; the shutdown sentinel, then a
  late message. Also the connected websocket once its link no longer accepts a
  frame.
\<close>

definition example_websocket :: lmstudio_websocket where
  "example_websocket =
     snd (SyncLMStudioWebsocket_connect Accepted
            (SyncLMStudioWebsocket_init ''ws://127.0.0.1:1234/llm'' ''key''))"

definition example_endpoint :: channel_endpoint where
  "example_endpoint = \<lparr>api_endpoint = ''predict'', creation_params = ''{}''\<rparr>"

definition example_channel :: sync_channel where
  "example_channel = SyncChannel_init 0 0 example_endpoint"

definition example_open_websocket :: lmstudio_websocket where
  "example_open_websocket = snd (open_channel_enter example_endpoint example_websocket)"

definition example_closed_websocket :: lmstudio_websocket where
  "example_closed_websocket =
     receive_messages [Receive (ChannelSend 0 ''a''), Receive (ChannelClose 0)]
       example_open_websocket"

definition example_disconnected_websocket :: lmstudio_websocket where
  "example_disconnected_websocket =
     receive_messages [Receive (ChannelSend 0 ''a''), ClientDisconnect] example_open_websocket"

definition example_late_websocket :: lmstudio_websocket where
  "example_late_websocket =
     snd (enqueue_message (ChannelSend 0 ''late'')
            (notify_client_termination example_open_websocket))"

definition example_broken_websocket :: lmstudio_websocket where
  "example_broken_websocket =
     example_websocket\<lparr>ws_thread := map_option (\<lambda>t. t\<lparr>link_ok := False\<rparr>)
                                         (ws_thread example_websocket)\<rparr>"

definition example_stream :: prediction_stream where
  "example_stream = PredictionStream_init example_endpoint"

definition example_session :: sync_session where
  "example_session = SyncSession_init ''127.0.0.1:1234'' ''key'' (Some ''llm'')"

text \<open>
  For \<^verbatim>\<open>act\<close>: a model that requests two calls of the tool \<^verbatim>\<open>add\<close> while it is given
  tool definitions and answers in plain text when it is given none, with the order in
  which the futures of the tool calls are yielded left open; and a model that
  requests a tool call whatever it is given. In both, \<^verbatim>\<open>parse_tools\<close> refuses an empty
  list of tools and the handler of invalid tool requests raises the error it is
  given the message of. For a session: a remote call, the creation of a channel and
  another remote call.
\<close>

definition example_request :: "string \<Rightarrow> tool_call_request" where
  "example_request rid =
     \<lparr>request_id = rid, request_name = ''add'', request_arguments = ''{}''\<rparr>"

definition example_env :: "(future list \<Rightarrow> future list) \<Rightarrow> act_env" where
  "example_env completion =
     \<lparr>parse_tools =
        (\<lambda>tools. if tools = []
                  then Inl (LMStudioValueError
                         ''Tool using actions require at least one tool to be defined.'')
                  else Inr tools),
      predict = (\<lambda>ep. if endpoint_tools ep = None
                      then Inr ([PredictionFragmentEvent ''5''], ''5'')
                      else Inr ([PredictionToolCallEvent (example_request ''1''),
                                 PredictionFragmentEvent ''...'',
                                 PredictionToolCallEvent (example_request ''2'')], [])),
      call_tool = (\<lambda>ep r. Inr \<lparr>tool_call_id = request_id r, content = ''5''\<rparr>),
      as_completed = completion,
      handle_invalid_tool_request = (\<lambda>ep err_msg. Inl (LMStudioPredictionError err_msg)),
      has_on_message = False\<rparr>"

definition stubborn_env :: act_env where
  "stubborn_env =
     (example_env (\<lambda>fs. fs))
       \<lparr>predict := (\<lambda>ep. Inr ([PredictionToolCallEvent (example_request ''1'')], []))\<rparr>"

definition example_operations :: "session_operation list" where
  "example_operations =
     [OpRemoteCall ''listLoaded'' ''{}'' [Receive (RpcResult 0 ''[]'')],
      OpCreateChannel example_endpoint,
      OpRemoteCall ''listLoaded'' ''{}'' [Receive (RpcResult 1 ''[]'')]]"

section \<open>Basic facts\<close>

lemmas connect_defs =
  SyncLMStudioWebsocket_connect_def fail_if_connected_def SyncLMStudioWebsocket_init_def
  AsyncWebsocketThread_init_def MultiplexingManager_init_def

lemmas open_defs =
  open_channel_enter_def new_queue_def assign_channel_id_def connect_to_endpoint_def
  ensure_connected_def SyncLMStudioWebsocket_send_json_def AsyncWebsocketThread_send_json_def
  get_creation_message_def SyncChannel_init_def

lemmas session_defs =
  create_channel_enter_def SyncSession_ensure_connected_def SyncSession_connect_def
  session_fail_if_connected_def SyncLMStudioWebsocket_enter_def get_lmsws_def
  SyncSession_init_def session_net_def

lemma working_update:
  "working (w\<lparr>queues := qs\<rparr>) = working w"
  "working (w\<lparr>next_queue := n\<rparr>) = working w"
  "working (w\<lparr>mux := m\<rparr>) = working w"
  "working (w\<lparr>net := es\<rparr>) = working w"
  by (simp_all add: working_def)

lemma send_json_working:
  "working w \<Longrightarrow>
     SyncLMStudioWebsocket_send_json message w = (Inr (), w\<lparr>net := net w @ [NetSend message]\<rparr>)"
  by (auto simp: working_def SyncLMStudioWebsocket_send_json_def AsyncWebsocketThread_send_json_def
      split: option.splits)

lemma send_call_working:
  "working w \<Longrightarrow>
     send_call cid ep params w = (Inr (), w\<lparr>net := net w @ [NetSend (RpcCall cid ep params)]\<rparr>)"
  by (auto simp: send_call_def ensure_connected_def send_json_working get_rpc_message_def working_def
      split: option.splits)

lemma example_websocket_eq:
  "example_websocket =
     \<lparr>ws_url = ''ws://127.0.0.1:1234/llm'', auth_details = ''key'',
      ws_thread = Some \<lparr>t_ws = True, connection_failure = False, auth_failure = None,
                         terminate = False, link_ok = True\<rparr>,
      mux = \<lparr>open_channels = [], pending_calls = [], next_channel_id = 0, next_call_id = 0\<rparr>,
      queues = (\<lambda>_. []), next_queue = 0,
      net = [NetConnect ''ws://127.0.0.1:1234/llm'', NetAuth ''key'']\<rparr>"
  by (simp add: example_websocket_def connect_defs)

lemma example_open_websocket_eq:
  "example_open_websocket =
     \<lparr>ws_url = ''ws://127.0.0.1:1234/llm'', auth_details = ''key'',
      ws_thread = Some \<lparr>t_ws = True, connection_failure = False, auth_failure = None,
                         terminate = False, link_ok = True\<rparr>,
      mux = \<lparr>open_channels = [(0, 0)], pending_calls = [], next_channel_id = Suc 0,
             next_call_id = 0\<rparr>,
      queues = (\<lambda>_. []), next_queue = Suc 0,
      net = [NetConnect ''ws://127.0.0.1:1234/llm'', NetAuth ''key'',
             NetSend (ChannelCreate 0 ''predict'' ''{}'')]\<rparr>"
  by (simp add: example_open_websocket_def example_websocket_eq example_endpoint_def open_defs
      fun_eq_iff)

lemma example_working: "working example_websocket"
  by (simp add: working_def example_websocket_eq)

lemma example_wf: "wf_websocket example_websocket"
  by (simp add: wf_websocket_def example_websocket_eq)

lemma example_broken_websocket_eq:
  "example_broken_websocket =
     \<lparr>ws_url = ''ws://127.0.0.1:1234/llm'', auth_details = ''key'',
      ws_thread = Some \<lparr>t_ws = True, connection_failure = False, auth_failure = None,
                         terminate = False, link_ok = False\<rparr>,
      mux = \<lparr>open_channels = [], pending_calls = [], next_channel_id = 0, next_call_id = 0\<rparr>,
      queues = (\<lambda>_. []), next_queue = 0,
      net = [NetConnect ''ws://127.0.0.1:1234/llm'', NetAuth ''key'']\<rparr>"
  by (simp add: example_broken_websocket_def example_websocket_eq)

lemma example_broken_not_working: "\<not> working example_broken_websocket"
  by (simp add: working_def example_broken_websocket_eq)

lemma example_broken_wf: "wf_websocket example_broken_websocket"
  by (simp add: wf_websocket_def example_broken_websocket_eq)

lemma example_open: "fst (open_channel_enter example_endpoint example_websocket) = Inr example_channel"
  by (simp add: example_websocket_eq example_channel_def example_endpoint_def open_defs)

lemma example_channel_simps:
  "is_finished example_channel = False"
  "rx_queue example_channel = 0"
  "channel_id example_channel = 0"
  by (simp_all add: example_channel_def SyncChannel_init_def)

lemma example_closed_queue:
  "queues example_closed_websocket 0 = [Some (ChannelSend 0 ''a''), Some (ChannelClose 0)]"
  by (simp add: example_closed_websocket_def example_open_websocket_eq enqueue_message_def
      queue_put_def)

lemma example_disconnected_queue:
  "queues example_disconnected_websocket 0 = [Some (ChannelSend 0 ''a''), None]"
  by (simp add: example_disconnected_websocket_def example_open_websocket_eq enqueue_message_def
      queue_put_def SyncLMStudioWebsocket_disconnect_def notify_client_termination_def
      all_queues_def)

lemma example_late_queue:
  "queues example_late_websocket 0 = [None, Some (ChannelSend 0 ''late'')]"
  by (simp add: example_late_websocket_def example_open_websocket_eq enqueue_message_def
      queue_put_def notify_client_termination_def all_queues_def)

section \<open>Remote calls\<close>

lemma fold_queue_put_mux: "mux (fold (\<lambda>q. queue_put q message) qs w) = mux w"
  by (induction qs arbitrary: w) (simp_all add: queue_put_def)

lemma fold_queue_put_queues:
  "queues (fold (\<lambda>q. queue_put q message) qs w) q =
     queues w q @ replicate (count_list qs q) message"
  by (induction qs arbitrary: w) (auto simp: queue_put_def replicate_append_same)

lemma call_frame_None: "call_frame cid None"
  by (simp add: call_frame_def)

lemma call_inv_notify: "call_inv cid q w \<Longrightarrow> call_inv cid q (notify_client_termination w)"
  by (auto simp: call_inv_def notify_client_termination_def fold_queue_put_mux
      fold_queue_put_queues call_frame_None)

lemma call_inv_thread: "call_inv cid q (w\<lparr>ws_thread := t\<rparr>) = call_inv cid q w"
  by (simp add: call_inv_def)

lemma call_inv_disconnect:
  "call_inv cid q w \<Longrightarrow> call_inv cid q (SyncLMStudioWebsocket_disconnect w)"
  by (auto simp: SyncLMStudioWebsocket_disconnect_def call_inv_thread intro!: call_inv_notify
      split: option.splits)

lemma call_inv_enqueue:
  assumes inv: "call_inv cid q w"
  shows "call_inv cid q (snd (enqueue_message message w))"
proof (cases "map_rx_message (mux w) message")
  case None
  with inv show ?thesis by (simp add: enqueue_message_def)
next
  case (Some q')
  show ?thesis
  proof (cases "q' = q")
    case False
    with Some inv show ?thesis by (simp add: enqueue_message_def queue_put_def call_inv_def)
  next
    case True
    with Some inv have "call_frame cid (Some message)"
      by (cases message) (auto simp: call_inv_def call_frame_def dest!: map_of_SomeD)
    with Some inv show ?thesis by (simp add: enqueue_message_def queue_put_def call_inv_def)
  qed
qed

lemma call_inv_receive_messages:
  "call_inv cid q w \<Longrightarrow> call_inv cid q (receive_messages events w)"
proof (induction events w rule: receive_messages.induct)
  case (1 w)
  then show ?case by simp
next
  case (2 message events w)
  then show ?case by (auto simp: call_inv_enqueue split: option.splits)
next
  case (3 events w)
  then show ?case by (auto simp: call_inv_thread split: option.splits)
next
  case (4 events w)
  then show ?case by (simp add: call_inv_disconnect)
qed

lemma awaiting_call_working:
  "working w \<Longrightarrow>
     awaiting_call ep params w =
        w\<lparr>queues := (queues w)(next_queue w := []), next_queue := Suc (next_queue w),
          mux := (mux w)\<lparr>pending_calls :=
                            pending_calls (mux w) @ [(next_call_id (mux w), next_queue w)],
                          next_call_id := Suc (next_call_id (mux w))\<rparr>,
          net := net w @ [NetSend (RpcCall (next_call_id (mux w)) ep params)]\<rparr>"
  by (simp add: awaiting_call_def new_queue_def assign_call_id_def send_call_working
      working_update)

lemma call_inv_awaiting:
  "working w \<Longrightarrow> wf_websocket w \<Longrightarrow>
     call_inv (next_call_id (mux w)) (next_queue w) (awaiting_call ep params w)"
  by (auto simp: awaiting_call_working call_inv_def wf_websocket_def)

lemma remote_call_unfold:
  "working w \<Longrightarrow>
   SyncLMStudioWebsocket_remote_call ep params events w =
     (case queues (receive_messages events (awaiting_call ep params w)) (next_queue w) of
        [] \<Rightarrow> (None, receive_messages events (awaiting_call ep params w))
      | message # rest \<Rightarrow>
          (Some (RemoteCallHandler_handle_rx_message message),
           (receive_messages events (awaiting_call ep params w))
             \<lparr>queues := (queues (receive_messages events (awaiting_call ep params w)))
                          (next_queue w := rest),
              mux := release_call_id (next_call_id (mux w))
                       (mux (receive_messages events (awaiting_call ep params w)))\<rparr>))"
  by (simp add: SyncLMStudioWebsocket_remote_call_def awaiting_call_def
      new_queue_def assign_call_id_def send_call_working working_update
      SyncRemoteCall_receive_result_def queue_get_def split: list.splits)

lemma map_of_released: "map_of (filter (\<lambda>kv. fst kv \<noteq> k) xs) k = None"
  by (induction xs) auto

lemma remote_call_not_working:
  assumes "\<not> working w"
  shows "fst (SyncLMStudioWebsocket_remote_call ep params events w) =
           Some (Inl (case ws_thread w of
                        None \<Rightarrow> NotConnected ''send remote procedure call''
                      | Some t \<Rightarrow> if \<not> t_ws t then AssertionError else TxError))"
    and "queues (snd (SyncLMStudioWebsocket_remote_call ep params events w)) =
           (queues w)(next_queue w := [])"
    and "net (snd (SyncLMStudioWebsocket_remote_call ep params events w)) = net w"
    and "pending_calls (mux (snd (SyncLMStudioWebsocket_remote_call ep params events w))) =
           filter (\<lambda>kv. fst kv \<noteq> next_call_id (mux w))
             (pending_calls (mux w) @ [(next_call_id (mux w), next_queue w)])"
  using assms
  by (auto simp: SyncLMStudioWebsocket_remote_call_def new_queue_def assign_call_id_def
      send_call_def ensure_connected_def SyncLMStudioWebsocket_send_json_def
      AsyncWebsocketThread_send_json_def release_call_id_def working_def
      split: option.splits)

text \<open>
  C2, as the code has it. A remote call allocates its queue and its call id and tries
  to send the \<^verbatim>\<open>rpcCall\<close> frame.

  On a websocket that is not working the frame is not sent: the call fails at once
  with the error of the connection check or of the send, no frame goes out, no queue
  is read (the queue of the call stays empty and every other queue is as it was), and
  the call id is given up.

  On a working websocket the frame is sent and the call waits on its queue. Whatever
  happens in the background, that queue only ever holds messages that conclude the
  call: an \<^verbatim>\<open>rpcResult\<close> or an \<^verbatim>\<open>rpcError\<close> for the call id, or the shutdown sentinel.
  While the queue is empty the call waits. Otherwise the call takes exactly the first
  message off the queue (the rest stays), gives up its call id, and concludes by that
  message: the sentinel fails with \<open>Disconnected\<close>, an \<^verbatim>\<open>rpcResult\<close> returns its
  payload, an \<^verbatim>\<open>rpcError\<close> fails with the error of the server.

  In both cases the multiplexer afterwards maps no \<^verbatim>\<open>rpcResult\<close> and no \<^verbatim>\<open>rpcError\<close>
  with the call id to any queue: no call receives a second result.
\<close>

theorem remote_call_outcomes:
  assumes "wf_websocket w"
  shows "(\<not> working w \<longrightarrow>
            fst (SyncLMStudioWebsocket_remote_call ep params events w) =
              Some (Inl (case ws_thread w of
                           None \<Rightarrow> NotConnected ''send remote procedure call''
                         | Some t \<Rightarrow> if \<not> t_ws t then AssertionError else TxError))
            \<and> queues (snd (SyncLMStudioWebsocket_remote_call ep params events w)) =
                (queues w)(next_queue w := [])
            \<and> net (snd (SyncLMStudioWebsocket_remote_call ep params events w)) = net w)
    \<and> (working w \<longrightarrow>
          (\<forall>message \<in> set (queues (receive_messages events (awaiting_call ep params w))
                            (next_queue w)).
            call_frame (next_call_id (mux w)) message)
        \<and> (queues (receive_messages events (awaiting_call ep params w)) (next_queue w) = [] \<longrightarrow>
              fst (SyncLMStudioWebsocket_remote_call ep params events w) = None)
        \<and> (\<forall>message rest.
              queues (receive_messages events (awaiting_call ep params w)) (next_queue w)
                = message # rest \<longrightarrow>
                queues (snd (SyncLMStudioWebsocket_remote_call ep params events w)) (next_queue w)
                  = rest
                \<and> (message = None \<longrightarrow>
                     fst (SyncLMStudioWebsocket_remote_call ep params events w)
                       = Some (Inl Disconnected))
                \<and> (\<forall>r. message = Some (RpcResult (next_call_id (mux w)) r) \<longrightarrow>
                     fst (SyncLMStudioWebsocket_remote_call ep params events w) = Some (Inr r))
                \<and> (\<forall>e. message = Some (RpcError (next_call_id (mux w)) e) \<longrightarrow>
                     fst (SyncLMStudioWebsocket_remote_call ep params events w)
                       = Some (Inl (RpcFailed e)))))
    \<and> (fst (SyncLMStudioWebsocket_remote_call ep params events w) \<noteq> None \<longrightarrow>
          next_call_id (mux w) \<notin>
            fst ` set (pending_calls
                        (mux (snd (SyncLMStudioWebsocket_remote_call ep params events w))))
          \<and> (\<forall>r. map_rx_message
                    (mux (snd (SyncLMStudioWebsocket_remote_call ep params events w)))
                    (RpcResult (next_call_id (mux w)) r) = None)
          \<and> (\<forall>e. map_rx_message
                    (mux (snd (SyncLMStudioWebsocket_remote_call ep params events w)))
                    (RpcError (next_call_id (mux w)) e) = None))"
proof (intro conjI impI)
  assume nw: "\<not> working w"
  show "fst (SyncLMStudioWebsocket_remote_call ep params events w) =
              Some (Inl (case ws_thread w of
                           None \<Rightarrow> NotConnected ''send remote procedure call''
                         | Some t \<Rightarrow> if \<not> t_ws t then AssertionError else TxError))"
    by (rule remote_call_not_working(1)[OF nw])
  show "queues (snd (SyncLMStudioWebsocket_remote_call ep params events w)) =
                (queues w)(next_queue w := [])"
    by (rule remote_call_not_working(2)[OF nw])
  show "net (snd (SyncLMStudioWebsocket_remote_call ep params events w)) = net w"
    by (rule remote_call_not_working(3)[OF nw])
next
  assume wk: "working w"
  have "call_inv (next_call_id (mux w)) (next_queue w)
                   (receive_messages events (awaiting_call ep params w))"
    using wk assms by (intro call_inv_receive_messages call_inv_awaiting)
  then show "\<forall>message \<in> set (queues (receive_messages events (awaiting_call ep params w))
                            (next_queue w)).
            call_frame (next_call_id (mux w)) message"
    by (simp add: call_inv_def)
  show "fst (SyncLMStudioWebsocket_remote_call ep params events w) = None"
    if "queues (receive_messages events (awaiting_call ep params w)) (next_queue w) = []"
    using that by (simp add: remote_call_unfold[OF wk])
  show "\<forall>message rest.
              queues (receive_messages events (awaiting_call ep params w)) (next_queue w)
                = message # rest \<longrightarrow>
                queues (snd (SyncLMStudioWebsocket_remote_call ep params events w)) (next_queue w)
                  = rest
                \<and> (message = None \<longrightarrow>
                     fst (SyncLMStudioWebsocket_remote_call ep params events w)
                       = Some (Inl Disconnected))
                \<and> (\<forall>r. message = Some (RpcResult (next_call_id (mux w)) r) \<longrightarrow>
                     fst (SyncLMStudioWebsocket_remote_call ep params events w) = Some (Inr r))
                \<and> (\<forall>e. message = Some (RpcError (next_call_id (mux w)) e) \<longrightarrow>
                     fst (SyncLMStudioWebsocket_remote_call ep params events w)
                       = Some (Inl (RpcFailed e)))"
  proof (intro allI impI conjI)
    fix message rest
    assume q: "queues (receive_messages events (awaiting_call ep params w)) (next_queue w)
               = message # rest"
    show "queues (snd (SyncLMStudioWebsocket_remote_call ep params events w)) (next_queue w) = rest"
      using q by (simp add: remote_call_unfold[OF wk])
    show "fst (SyncLMStudioWebsocket_remote_call ep params events w) = Some (Inl Disconnected)"
      if "message = None"
      using q that by (simp add: remote_call_unfold[OF wk])
    show "fst (SyncLMStudioWebsocket_remote_call ep params events w) = Some (Inr r)"
      if "message = Some (RpcResult (next_call_id (mux w)) r)" for r
      using q that by (simp add: remote_call_unfold[OF wk])
    show "fst (SyncLMStudioWebsocket_remote_call ep params events w) = Some (Inl (RpcFailed e))"
      if "message = Some (RpcError (next_call_id (mux w)) e)" for e
      using q that by (simp add: remote_call_unfold[OF wk])
  qed
next
  assume concluded: "fst (SyncLMStudioWebsocket_remote_call ep params events w) \<noteq> None"
  have released: "\<exists>xs. pending_calls
                        (mux (snd (SyncLMStudioWebsocket_remote_call ep params events w)))
                   = filter (\<lambda>kv. fst kv \<noteq> next_call_id (mux w)) xs"
  proof (cases "working w")
    case False
    from remote_call_not_working(4)[OF False] show ?thesis by blast
  next
    case True
    with concluded show ?thesis
      by (auto simp: remote_call_unfold[OF True] release_call_id_def split: list.splits)
  qed
  then obtain xs where xs: "pending_calls
                        (mux (snd (SyncLMStudioWebsocket_remote_call ep params events w)))
                   = filter (\<lambda>kv. fst kv \<noteq> next_call_id (mux w)) xs" ..
  show "next_call_id (mux w) \<notin>
            fst ` set (pending_calls
                        (mux (snd (SyncLMStudioWebsocket_remote_call ep params events w))))"
    unfolding xs by auto
  show "\<forall>r. map_rx_message
                    (mux (snd (SyncLMStudioWebsocket_remote_call ep params events w)))
                    (RpcResult (next_call_id (mux w)) r) = None"
    by (simp add: xs map_of_released)
  show "\<forall>e. map_rx_message
                    (mux (snd (SyncLMStudioWebsocket_remote_call ep params events w)))
                    (RpcError (next_call_id (mux w)) e) = None"
    by (simp add: xs map_of_released)
qed

text \<open>
  On the first call of a connected websocket: the server answers with a result, with
  an error, or the client disconnects; a later result for the same call id is mapped
  to no queue; with nothing received yet the call waits. On a websocket that was never connected, and on one whose link is
  down, the call fails without sending.
\<close>

theorem remote_call_outcomes_witness:
  "working example_websocket \<and> wf_websocket example_websocket
   \<and> fst (SyncLMStudioWebsocket_remote_call ''listLoaded'' ''{}''
            [Receive (RpcResult 0 ''[]'')] example_websocket) = Some (Inr ''[]'')
   \<and> map_rx_message
        (mux (snd (SyncLMStudioWebsocket_remote_call ''listLoaded'' ''{}''
                     [Receive (RpcResult 0 ''[]'')] example_websocket)))
        (RpcResult 0 ''again'') = None
   \<and> fst (SyncLMStudioWebsocket_remote_call ''getModelInfo'' ''{}''
            [Receive (RpcError 0 ''NotFound'')] example_websocket)
       = Some (Inl (RpcFailed ''NotFound''))
   \<and> fst (SyncLMStudioWebsocket_remote_call ''listLoaded'' ''{}''
            [ClientDisconnect] example_websocket) = Some (Inl Disconnected)
   \<and> fst (SyncLMStudioWebsocket_remote_call ''listLoaded'' ''{}'' [] example_websocket) = None
   \<and> \<not> working example_broken_websocket \<and> wf_websocket example_broken_websocket
   \<and> fst (SyncLMStudioWebsocket_remote_call ''listLoaded'' ''{}''
            [Receive (RpcResult 0 ''[]'')] example_broken_websocket) = Some (Inl TxError)"
proof -
  have q0: "queues (receive_messages [] (awaiting_call ''listLoaded'' ''{}'' example_websocket))
              (next_queue example_websocket) = []"
    unfolding awaiting_call_working[OF example_working]
    by (simp add: example_websocket_eq)
  have q1: "queues (receive_messages [Receive (RpcResult 0 ''[]'')]
                      (awaiting_call ''listLoaded'' ''{}'' example_websocket))
              (next_queue example_websocket) = [Some (RpcResult 0 ''[]'')]"
    unfolding awaiting_call_working[OF example_working]
    by (simp add: example_websocket_eq enqueue_message_def queue_put_def)
  have q2: "queues (receive_messages [Receive (RpcError 0 ''NotFound'')]
                      (awaiting_call ''getModelInfo'' ''{}'' example_websocket))
              (next_queue example_websocket) = [Some (RpcError 0 ''NotFound'')]"
    unfolding awaiting_call_working[OF example_working]
    by (simp add: example_websocket_eq enqueue_message_def queue_put_def)
  have q3: "queues (receive_messages [ClientDisconnect]
                      (awaiting_call ''listLoaded'' ''{}'' example_websocket))
              (next_queue example_websocket) = [None]"
    unfolding awaiting_call_working[OF example_working]
    by (simp add: example_websocket_eq SyncLMStudioWebsocket_disconnect_def
          notify_client_termination_def all_queues_def queue_put_def)
  have n: "next_call_id (mux example_websocket) = 0"
    by (simp add: example_websocket_eq)
  from remote_call_outcomes[OF example_wf,
         of "''listLoaded''" "''{}''" "[Receive (RpcResult 0 ''[]'')]"] q1 n example_working
  have r1: "fst (SyncLMStudioWebsocket_remote_call ''listLoaded'' ''{}''
            [Receive (RpcResult 0 ''[]'')] example_websocket) = Some (Inr ''[]'')"
    and m1: "map_rx_message
        (mux (snd (SyncLMStudioWebsocket_remote_call ''listLoaded'' ''{}''
                     [Receive (RpcResult 0 ''[]'')] example_websocket)))
        (RpcResult 0 ''again'') = None"
    by simp_all
  from remote_call_outcomes[OF example_wf,
         of "''getModelInfo''" "''{}''" "[Receive (RpcError 0 ''NotFound'')]"] q2 n example_working
  have r2: "fst (SyncLMStudioWebsocket_remote_call ''getModelInfo'' ''{}''
            [Receive (RpcError 0 ''NotFound'')] example_websocket)
              = Some (Inl (RpcFailed ''NotFound''))"
    by simp
  from remote_call_outcomes[OF example_wf,
         of "''listLoaded''" "''{}''" "[ClientDisconnect]"] q3 example_working
  have r3: "fst (SyncLMStudioWebsocket_remote_call ''listLoaded'' ''{}''
            [ClientDisconnect] example_websocket) = Some (Inl Disconnected)"
    by simp
  from remote_call_outcomes[OF example_broken_wf,
         of "''listLoaded''" "''{}''" "[Receive (RpcResult 0 ''[]'')]"] example_broken_not_working
  have r4: "fst (SyncLMStudioWebsocket_remote_call ''listLoaded'' ''{}''
            [Receive (RpcResult 0 ''[]'')] example_broken_websocket) = Some (Inl TxError)"
    by (simp add: example_broken_websocket_eq)
  from remote_call_outcomes[OF example_wf, of "''listLoaded''" "''{}''" "[]"] q0 example_working
  have r5: "fst (SyncLMStudioWebsocket_remote_call ''listLoaded'' ''{}'' [] example_websocket)
              = None"
    by simp
  from r1 m1 r2 r3 r4 r5 example_working example_wf example_broken_not_working
    example_broken_wf
  show ?thesis by simp
qed

text \<open>
  The claim as stated fails: not every call consumes a message and concludes in one
  of the three ways. On the connected websocket whose link is down the call fails with
  the error of the send, and on the websocket that was never connected with the
  error of the connection check; in both cases no frame is sent and no message is
  consumed, although the server's result is on its way.
\<close>

theorem remote_call_fourth_outcome:
  "fst (SyncLMStudioWebsocket_remote_call ''listLoaded'' ''{}''
          [Receive (RpcResult 0 ''[]'')] example_broken_websocket) = Some (Inl TxError)
   \<and> net (snd (SyncLMStudioWebsocket_remote_call ''listLoaded'' ''{}''
                 [Receive (RpcResult 0 ''[]'')] example_broken_websocket))
       = net example_broken_websocket
   \<and> fst (SyncLMStudioWebsocket_remote_call ''listLoaded'' ''{}''
            [Receive (RpcResult 0 ''[]'')]
            (SyncLMStudioWebsocket_init ''ws://127.0.0.1:1234/llm'' ''key''))
       = Some (Inl (NotConnected ''send remote procedure call''))
   \<and> net (snd (SyncLMStudioWebsocket_remote_call ''listLoaded'' ''{}''
                 [Receive (RpcResult 0 ''[]'')]
                 (SyncLMStudioWebsocket_init ''ws://127.0.0.1:1234/llm'' ''key''))) = []"
  by (simp add: SyncLMStudioWebsocket_remote_call_def new_queue_def assign_call_id_def
      send_call_def ensure_connected_def SyncLMStudioWebsocket_send_json_def
      AsyncWebsocketThread_send_json_def release_call_id_def example_broken_websocket_eq
      SyncLMStudioWebsocket_init_def MultiplexingManager_init_def)

section \<open>Cancelling a channel\<close>

lemma cancel_working: "working w \<Longrightarrow> working (snd (SyncChannel_cancel channel w))"
  by (auto simp: working_def SyncChannel_cancel_def SyncLMStudioWebsocket_send_json_def
      AsyncWebsocketThread_send_json_def split: option.splits)

lemma cancel_frames_step:
  "working w \<Longrightarrow>
     cancel_frames channel (snd (SyncChannel_cancel channel w)) =
       cancel_frames channel w + (if is_finished channel then 0 else 1)"
  by (auto simp: working_def cancel_frames_def SyncChannel_cancel_def
      SyncLMStudioWebsocket_send_json_def AsyncWebsocketThread_send_json_def
      get_cancel_message_def split: option.splits)

text \<open>
  C3, as the code has it. On a working websocket every call of \<^verbatim>\<open>cancel()\<close> on a
  channel that is not finished sends one \<^verbatim>\<open>channelCancel\<close> frame, so \<open>n\<close> calls send
  \<open>n\<close> frames; on a finished channel \<^verbatim>\<open>cancel()\<close> sends nothing, however often it is
  called.
\<close>

theorem cancel_sends_one_frame_per_call:
  "working w \<Longrightarrow>
     cancel_frames channel (cancel_repeatedly n channel w) =
       cancel_frames channel w + (if is_finished channel then 0 else n)"
proof (induction n arbitrary: w)
  case 0
  then show ?case by simp
next
  case (Suc n)
  from Suc.prems have "working (snd (SyncChannel_cancel channel w))"
    by (rule cancel_working)
  from Suc.IH[OF this] cancel_frames_step[OF Suc.prems, of channel]
  show ?case by simp
qed

theorem cancel_sends_one_frame_per_call_witness:
  "working example_websocket \<and>
   cancel_frames example_channel (cancel_repeatedly 3 example_channel example_websocket) = 3"
  using cancel_sends_one_frame_per_call[of example_websocket example_channel 3] example_working
  by (simp add: cancel_frames_def example_websocket_eq example_channel_simps)

text \<open>
  The claim as stated fails: two calls of \<^verbatim>\<open>cancel()\<close> on the channel just opened,
  which is not finished, put two \<^verbatim>\<open>channelCancel\<close> frames on the wire.
\<close>

theorem cancel_not_idempotent:
  "\<not> is_finished example_channel \<and>
   \<not> cancel_frames example_channel
       (cancel_repeatedly 2 example_channel
          (snd (open_channel_enter example_endpoint example_websocket))) \<le> 1"
  by (simp add: numeral_2_eq_2 cancel_frames_def example_websocket_eq example_channel_def
      example_endpoint_def open_defs SyncChannel_cancel_def get_cancel_message_def)

section \<open>The scope of a channel\<close>

lemma open_channel_enter_working:
  assumes "working w"
  shows "open_channel_enter ep w =
     (Inr (SyncChannel_init (next_channel_id (mux w)) (next_queue w) ep),
      w\<lparr>queues := (queues w)(next_queue w := []), next_queue := Suc (next_queue w),
        mux := (mux w)\<lparr>open_channels :=
                          open_channels (mux w) @ [(next_channel_id (mux w), next_queue w)],
                        next_channel_id := Suc (next_channel_id (mux w))\<rparr>,
        net := net w @ [NetSend (ChannelCreate (next_channel_id (mux w)) (api_endpoint ep)
                                   (creation_params ep))]\<rparr>)"
  using assms by (auto simp: working_def open_defs split: option.splits)

lemma create_channel_exit_net: "session_net (create_channel_exit channel s) = session_net s"
  by (simp add: create_channel_exit_def session_net_def open_channel_exit_def
      split: option.splits)

lemma fold_create_channel_exit_net:
  "session_net (fold create_channel_exit channels s) = session_net s"
  by (induction channels arbitrary: s) (simp_all add: create_channel_exit_net)

text \<open>
  C7, as the code has it. Entering \<^verbatim>\<open>open_channel\<close> on a working websocket allocates
  the next channel id, registers the new queue under it, sends one \<^verbatim>\<open>channelCreate\<close>
  frame with the name and the creation payload of the endpoint, and yields the
  channel. Leaving the scope removes the channel id from the multiplexer and sends
  nothing, whether the channel has finished or not; closing a prediction stream,
  which leaves the scopes the stream entered, sends nothing either.
\<close>

theorem open_channel_scope:
  "(working w \<longrightarrow>
      fst (open_channel_enter ep w)
        = Inr (SyncChannel_init (next_channel_id (mux w)) (next_queue w) ep)
      \<and> net (snd (open_channel_enter ep w)) =
          net w @ [NetSend (ChannelCreate (next_channel_id (mux w)) (api_endpoint ep)
                              (creation_params ep))]
      \<and> (next_channel_id (mux w), next_queue w)
            \<in> set (open_channels (mux (snd (open_channel_enter ep w)))))
   \<and> net (open_channel_exit channel w) = net w
   \<and> channel_id channel \<notin> fst ` set (open_channels (mux (open_channel_exit channel w)))
   \<and> session_net (snd (PredictionStream_close p s)) = session_net s"
  by (auto simp: open_channel_enter_working open_channel_exit_def release_channel_id_def
        PredictionStream_close_def fold_create_channel_exit_net)

theorem open_channel_scope_witness:
  "working example_websocket
   \<and> fst (open_channel_enter example_endpoint example_websocket)
       = Inr (SyncChannel_init 0 0 example_endpoint)
   \<and> net (snd (open_channel_enter example_endpoint example_websocket)) =
       [NetConnect ''ws://127.0.0.1:1234/llm'', NetAuth ''key'',
        NetSend (ChannelCreate 0 ''predict'' ''{}'')]"
  using open_channel_scope[of example_websocket example_endpoint] example_working
  by (simp add: example_websocket_eq example_endpoint_def)

text \<open>
  The claim as stated fails: the scope of the first channel is left while the channel
  is not finished, and no \<^verbatim>\<open>channelCancel\<close> frame for it is on the wire.
\<close>

theorem open_channel_exit_sends_no_cancel:
  "fst (open_channel_enter example_endpoint example_websocket) = Inr example_channel
   \<and> \<not> is_finished example_channel
   \<and> NetSend (ChannelCancel (channel_id example_channel)) \<notin>
       set (net (open_channel_exit example_channel
                  (snd (open_channel_enter example_endpoint example_websocket))))"
  by (simp add: example_websocket_eq example_channel_def example_endpoint_def open_defs
        open_channel_exit_def)

section \<open>The stream of received messages\<close>

lemma rx_stream_loop_finished: "rx_stream_loop True q = ([], StopIteration, True, q)"
  by (cases q) simp_all

lemma rx_stream_loop_sends:
  "rx_stream_loop False (map (\<lambda>c. Some (ChannelSend k c)) cs @ q) =
     (case rx_stream_loop False q of (items, r) \<Rightarrow> (cs @ items, r))"
  by (induction cs) (simp_all split: prod.splits)

lemma rx_stream_loop_stop:
  "rx_stream_loop fin q = (items, StopIteration, fin', rest) \<Longrightarrow> fin'"
  by (induction fin q arbitrary: items rest rule: rx_stream_loop.induct)
     (auto split: if_splits sum.splits option.splits prod.splits)

lemma rx_stream_loop_length:
  "rx_stream_loop fin q = (items, ending, fin', rest) \<Longrightarrow>
     length items + length rest \<le> length q"
  by (induction fin q arbitrary: items rest ending fin' rule: rx_stream_loop.induct)
     (auto split: if_splits sum.splits option.splits prod.splits)

text \<open>
  C6, as the code has it. On a finished channel \<^verbatim>\<open>rx_stream()\<close> yields nothing,
  consumes nothing and leaves the channel finished (nothing unsets the flag). An
  iteration that ends normally leaves the channel finished, and it yields at most as
  many items as the queue holds. On a channel that is not finished, the payloads
  received before a \<^verbatim>\<open>channelClose\<close> are yielded in order, the close ends the
  iteration and marks the channel finished; the payloads received before the shutdown
  sentinel are yielded in order, the sentinel ends the iteration with \<open>Disconnected\<close>,
  and the channel is left not finished.
\<close>

theorem rx_stream_finished:
  "(is_finished channel \<longrightarrow>
      SyncChannel_rx_stream channel w = (([], StopIteration), channel, w))
   \<and> (snd (fst (SyncChannel_rx_stream channel w)) = StopIteration \<longrightarrow>
        is_finished (fst (snd (SyncChannel_rx_stream channel w))))
   \<and> length (fst (fst (SyncChannel_rx_stream channel w))) \<le> length (queues w (rx_queue channel))
   \<and> (\<not> is_finished channel \<and>
       queues w (rx_queue channel)
         = map (\<lambda>c. Some (ChannelSend k c)) cs @ Some (ChannelClose k) # rest \<longrightarrow>
        fst (SyncChannel_rx_stream channel w) = (cs, StopIteration)
        \<and> is_finished (fst (snd (SyncChannel_rx_stream channel w)))
        \<and> queues (snd (snd (SyncChannel_rx_stream channel w))) (rx_queue channel) = rest)
   \<and> (\<not> is_finished channel \<and>
       queues w (rx_queue channel) = map (\<lambda>c. Some (ChannelSend k c)) cs @ None # rest \<longrightarrow>
        fst (SyncChannel_rx_stream channel w) = (cs, Raised Disconnected)
        \<and> \<not> is_finished (fst (snd (SyncChannel_rx_stream channel w)))
        \<and> queues (snd (snd (SyncChannel_rx_stream channel w))) (rx_queue channel) = rest)"
proof (intro conjI impI)
  assume "is_finished channel"
  then show "SyncChannel_rx_stream channel w = (([], StopIteration), channel, w)"
    by (simp add: SyncChannel_rx_stream_def rx_stream_loop_finished)
next
  assume "snd (fst (SyncChannel_rx_stream channel w)) = StopIteration"
  then show "is_finished (fst (snd (SyncChannel_rx_stream channel w)))"
    by (auto simp: SyncChannel_rx_stream_def split: prod.splits dest: rx_stream_loop_stop)
next
  show "length (fst (fst (SyncChannel_rx_stream channel w)))
          \<le> length (queues w (rx_queue channel))"
    by (auto simp: SyncChannel_rx_stream_def split: prod.splits dest: rx_stream_loop_length)
next
  assume "\<not> is_finished channel \<and>
       queues w (rx_queue channel)
         = map (\<lambda>c. Some (ChannelSend k c)) cs @ Some (ChannelClose k) # rest"
  then show "fst (SyncChannel_rx_stream channel w) = (cs, StopIteration)"
    and "is_finished (fst (snd (SyncChannel_rx_stream channel w)))"
    and "queues (snd (snd (SyncChannel_rx_stream channel w))) (rx_queue channel) = rest"
    by (simp_all add: SyncChannel_rx_stream_def rx_stream_loop_sends)
next
  assume "\<not> is_finished channel \<and>
       queues w (rx_queue channel) = map (\<lambda>c. Some (ChannelSend k c)) cs @ None # rest"
  then show "fst (SyncChannel_rx_stream channel w) = (cs, Raised Disconnected)"
    and "\<not> is_finished (fst (snd (SyncChannel_rx_stream channel w)))"
    and "queues (snd (snd (SyncChannel_rx_stream channel w))) (rx_queue channel) = rest"
    by (simp_all add: SyncChannel_rx_stream_def rx_stream_loop_sends)
qed

theorem rx_stream_finished_witness:
  "fst (SyncChannel_rx_stream example_channel example_closed_websocket)
     = ([''a''], StopIteration)
   \<and> is_finished (fst (snd (SyncChannel_rx_stream example_channel example_closed_websocket)))
   \<and> fst (SyncChannel_rx_stream example_channel example_disconnected_websocket)
       = ([''a''], Raised Disconnected)
   \<and> fst (SyncChannel_rx_stream (example_channel\<lparr>is_finished := True\<rparr>)
            example_closed_websocket)
       = ([], StopIteration)"
  using rx_stream_finished[of example_channel example_closed_websocket 0 "[''a'']" "[]"]
        rx_stream_finished[of example_channel example_disconnected_websocket 0 "[''a'']" "[]"]
        rx_stream_finished[of "example_channel\<lparr>is_finished := True\<rparr>"
                              example_closed_websocket]
  by (simp add: example_closed_queue example_disconnected_queue example_channel_simps)

text \<open>
  The claim as stated fails: the shutdown sentinel does not mark the channel
  finished. The channel whose queue holds the sentinel and then a late message ends
  its first iteration with \<open>Disconnected\<close>, is not finished afterwards, and a further
  iteration yields the late message.
\<close>

theorem sentinel_leaves_channel_unfinished:
  "fst (SyncChannel_rx_stream example_channel example_late_websocket)
     = ([], Raised Disconnected)
   \<and> \<not> is_finished (fst (snd (SyncChannel_rx_stream example_channel example_late_websocket)))
   \<and> fst (SyncChannel_rx_stream
            (fst (snd (SyncChannel_rx_stream example_channel example_late_websocket)))
            (snd (snd (SyncChannel_rx_stream example_channel example_late_websocket))))
     = ([''late''], Blocked)"
  by (simp add: SyncChannel_rx_stream_def example_late_queue example_channel_simps)

section \<open>Starting a prediction stream\<close>

text \<open>
  C9. \<^verbatim>\<open>start()\<close> on a stream whose result has been received raises the runtime
  error, and so does \<^verbatim>\<open>start()\<close> on a stream whose request has been sent; in both
  cases the stream and the session are left as they were, so nothing is sent. A
  \<^verbatim>\<open>start()\<close> that succeeds leaves the stream started, so that every later \<^verbatim>\<open>start()\<close>
  raises.
\<close>

theorem start_twice_raises:
  "(stream_is_finished p \<longrightarrow>
      PredictionStream_start srv p s =
        (Inl (LMStudioRuntimeError ''Prediction result has already been received.''), p, s))
   \<and> (stream_is_started p \<and> \<not> stream_is_finished p \<longrightarrow>
      PredictionStream_start srv p s =
        (Inl (LMStudioRuntimeError ''Prediction request has already been sent.''), p, s))
   \<and> (PredictionStream_start srv p s = (Inr (), p', s') \<longrightarrow>
        stream_is_started p' \<and>
        (\<exists>msg. PredictionStream_start srv' p' s'
                 = (Inl (LMStudioRuntimeError msg), p', s')))"
  by (auto simp: PredictionStream_start_def mark_started_def
      split: prod.splits sum.splits if_splits)

theorem start_twice_raises_witness:
  "fst (PredictionStream_start Accepted example_stream example_session) = Inr ()
   \<and> stream_is_started (fst (snd (PredictionStream_start Accepted example_stream example_session)))
   \<and> fst (PredictionStream_start Accepted
            (fst (snd (PredictionStream_start Accepted example_stream example_session)))
            (snd (snd (PredictionStream_start Accepted example_stream example_session))))
       = Inl (LMStudioRuntimeError ''Prediction request has already been sent.'')
   \<and> fst (PredictionStream_start Accepted (example_stream\<lparr>stream_is_finished := True\<rparr>)
            example_session)
       = Inl (LMStudioRuntimeError ''Prediction result has already been received.'')"
proof -
  let ?r = "PredictionStream_start Accepted example_stream example_session"
  have ok: "fst ?r = Inr ()"
    by (simp add: example_stream_def example_session_def example_endpoint_def
        PredictionStream_start_def PredictionStream_init_def mark_started_def
        session_defs connect_defs open_defs)
  have nf: "\<not> stream_is_finished (fst (snd ?r))"
    by (simp add: example_stream_def example_session_def example_endpoint_def
        PredictionStream_start_def PredictionStream_init_def mark_started_def
        session_defs connect_defs open_defs)
  from ok have eq: "?r = (Inr (), fst (snd ?r), snd (snd ?r))"
    by (simp add: prod_eq_iff)
  from start_twice_raises[of example_stream Accepted example_session
         "fst (snd ?r)" "snd (snd ?r)" Accepted] eq
  have st: "stream_is_started (fst (snd ?r))" by simp
  from start_twice_raises[of "fst (snd ?r)" Accepted "snd (snd ?r)"] st nf
  have second: "fst (PredictionStream_start Accepted (fst (snd ?r)) (snd (snd ?r)))
       = Inl (LMStudioRuntimeError ''Prediction request has already been sent.'')"
    by simp
  from start_twice_raises[of "example_stream\<lparr>stream_is_finished := True\<rparr>"
         Accepted example_session]
  have third: "fst (PredictionStream_start Accepted
                      (example_stream\<lparr>stream_is_finished := True\<rparr>) example_session)
       = Inl (LMStudioRuntimeError ''Prediction result has already been received.'')"
    by simp
  from ok st second third show ?thesis by simp
qed

section \<open>The default client\<close>

text \<open>
  C10. Once the default client exists, \<^verbatim>\<open>get_default_client\<close> with a host raises
  the client error and leaves the default client as it is: for every host, for the
  host of the existing client, and right after the call that created the client with
  that same host, when nothing has been connected. Without a host it returns the
  existing client unchanged.
\<close>

theorem default_client_host_rejected:
  "get_default_client auth (Some h) (Some c) =
     (Inl (LMStudioClientError ''Default session already connected, cannot set API host.''),
      Some c)
   \<and> get_default_client auth (Some (api_host c)) (Some c) =
     (Inl (LMStudioClientError ''Default session already connected, cannot set API host.''),
      Some c)
   \<and> fst (get_default_client auth2 (Some h) (snd (get_default_client auth (Some h) None))) =
     Inl (LMStudioClientError ''Default session already connected, cannot set API host.'')
   \<and> client_net (the (snd (get_default_client auth (Some h) None))) = []
   \<and> get_default_client auth None (Some c) = (Inr c, Some c)"
  by (simp add: get_default_client_def Client_init_def client_net_def)

section \<open>The rounds of \<open>act\<close>\<close>

lemma future_results_Inr: "future_results futs = Inr xs \<Longrightarrow> futs = map Inr xs"
proof (induction futs arbitrary: xs)
  case Nil
  then show ?case by simp
next
  case (Cons fut futs)
  then show ?case by (cases fut) (auto split: sum.splits)
qed

lemma future_results_Inl: "future_results futs = Inl e \<Longrightarrow> Inl e \<in> set futs"
proof (induction futs)
  case Nil
  then show ?case by simp
next
  case (Cons fut futs)
  then show ?case by (cases fut) (auto split: sum.splits)
qed

lemma act_round_cases:
  obtains (raised) e where
      "act_round env tools fri i st = (Inl e, st\<lparr>round_index := Some i\<rparr>)"
      "(\<exists>ep. predict env ep = Inl e)
         \<or> (\<exists>ep rqs. Inl e \<in> set (as_completed env (map (call_tool env ep) rqs)))"
  | (completed) rr st' where
      "act_round env tools fri i st =
         (if rr_tool_call_requests rr = [] then Inr True
          else if i = fri then
            (case handle_invalid_tool_request env (rr_endpoint rr)
                    ''Model requested tool use on final prediction round.'' of
               Inl e \<Rightarrow> Inl e | Inr _ \<Rightarrow> Inr True)
          else Inr False, st')"
      "rounds_log st' = rounds_log st @ [rr]" "round_index st' = Some i"
      "rr_round_index rr = i" "round_ok tools fri rr"
      "agent_chat st' = agent_chat st @ round_messages env rr"
      "results_yielded env rr"
proof -
  define ep where "ep = \<lparr>endpoint_chat = agent_chat st,
              endpoint_tools = (if i \<noteq> fri then Some tools else None)\<rparr>"
  show ?thesis
  proof (cases "predict env ep")
    case (Inl e)
    then have "act_round env tools fri i st = (Inl e, st\<lparr>round_index := Some i\<rparr>)"
      by (simp add: act_round_def ep_def)
    with Inl show ?thesis by (intro raised[of e]) auto
  next
    case (Inr ev)
    obtain events pr where ev: "ev = (events, pr)" by (cases ev)
    define requests where "requests = tool_call_requests_of events"
    define collected where "collected =
      (if requests \<noteq> [] then future_results (as_completed env (map (call_tool env ep) requests))
       else Inr [])"
    show ?thesis
    proof (cases collected)
      case (Inl e)
      then have "Inl e \<in> set (as_completed env (map (call_tool env ep) requests))"
        by (auto simp: collected_def dest: future_results_Inl split: if_splits)
      moreover from Inl have "requests \<noteq> []"
        and "future_results (as_completed env (map (call_tool env ep) requests)) = Inl e"
        by (auto simp: collected_def split: if_splits)
      with Inr ev have "act_round env tools fri i st = (Inl e, st\<lparr>round_index := Some i\<rparr>)"
        unfolding requests_def ep_def by (simp add: act_round_def Let_def)
      ultimately show ?thesis by (intro raised[of e]) auto
    next
      case (Inr tool_results)
      define rr where "rr =
        \<lparr>rr_round_index = i, rr_endpoint = ep, rr_prediction = pr,
         rr_tool_call_requests = requests, rr_tool_results = tool_results,
         rr_invalid_tool_request =
           (if requests \<noteq> [] \<and> i = fri
            then Some ''Model requested tool use on final prediction round.'' else None)\<rparr>"
      define st' where "st' =
        \<lparr>agent_chat = agent_chat st @ round_messages env rr, round_index = Some i,
         rounds_log = rounds_log st @ [rr]\<rparr>"
      have yielded: "results_yielded env rr"
        using Inr \<open>predict env ep = Inr ev\<close> ev
        by (auto simp: results_yielded_def rr_def collected_def requests_def
            dest: future_results_Inr split: if_splits)
      have run: "act_round env tools fri i st =
         (if requests = [] then Inr True
          else if i = fri then
            (case handle_invalid_tool_request env ep
                    ''Model requested tool use on final prediction round.'' of
               Inl e \<Rightarrow> Inl e | Inr _ \<Rightarrow> Inr True)
          else Inr False, st')"
      proof (cases "requests = []")
        case True
        with Inr have "tool_results = []" by (simp add: collected_def)
        with True \<open>predict env ep = Inr ev\<close> ev show ?thesis
          unfolding requests_def ep_def st'_def rr_def
          by (simp add: act_round_def Let_def round_messages_def add_assistant_response_def)
      next
        case False
        with Inr
        have "future_results (as_completed env (map (call_tool env ep) requests)) = Inr tool_results"
          by (simp add: collected_def)
        with False \<open>predict env ep = Inr ev\<close> ev show ?thesis
          unfolding requests_def ep_def st'_def rr_def
          by (simp add: act_round_def Let_def round_messages_def add_assistant_response_def
              add_tool_results_def split: sum.splits)
      qed
      show ?thesis
      proof (rule completed[of rr st'])
        show "act_round env tools fri i st =
         (if rr_tool_call_requests rr = [] then Inr True
          else if i = fri then
            (case handle_invalid_tool_request env (rr_endpoint rr)
                    ''Model requested tool use on final prediction round.'' of
               Inl e \<Rightarrow> Inl e | Inr _ \<Rightarrow> Inr True)
          else Inr False, st')"
          using run by (simp add: rr_def)
        show "rounds_log st' = rounds_log st @ [rr]" by (simp add: st'_def)
        show "round_index st' = Some i" by (simp add: st'_def)
        show "rr_round_index rr = i" by (simp add: rr_def)
        show "round_ok tools fri rr" by (simp add: round_ok_def rr_def ep_def)
        show "agent_chat st' = agent_chat st @ round_messages env rr" by (simp add: st'_def)
        show "results_yielded env rr" by (rule yielded)
      qed
    qed
  qed
qed


lemma act_result_cases:
  "act_result (r, st) = (r', st') \<Longrightarrow>
     st' = st \<and> ((\<exists>e. r = Inl e \<and> r' = Inl e)
       \<or> (r = Inr () \<and> round_index st = None \<and> r' = Inl UnboundLocalError)
       \<or> (\<exists>i. r = Inr () \<and> round_index st = Some i \<and> r' = Inr (i + 1)))"
  by (cases r) (auto simp: act_result_def split: option.splits)

lemmas act_defs = LLM_act_def act_result_def act_round_def add_assistant_response_def add_tool_results_def
  example_env_def stubborn_env_def example_request_def Let_def

lemma upt2: "[0..<2] = [0, 1]" by (simp add: upt_rec)


lemma example_act:
  "LLM_act (example_env rev) [UserMessage ''2+3?''] [''add''] (Some 2) =
     Some (Inr 2,
       \<lparr>agent_chat = [UserMessage ''2+3?'',
           AssistantResponse [] [example_request ''1'', example_request ''2''],
           ToolResultMessage [\<lparr>tool_call_id = ''2'', content = ''5''\<rparr>, \<lparr>tool_call_id = ''1'', content = ''5''\<rparr>]],
        round_index = Some 1,
        rounds_log =
          [\<lparr>rr_round_index = 0,
            rr_endpoint = \<lparr>endpoint_chat = [UserMessage ''2+3?''], endpoint_tools = Some [''add'']\<rparr>,
            rr_prediction = [],
            rr_tool_call_requests = [example_request ''1'', example_request ''2''],
            rr_tool_results = [\<lparr>tool_call_id = ''2'', content = ''5''\<rparr>, \<lparr>tool_call_id = ''1'', content = ''5''\<rparr>],
            rr_invalid_tool_request = None\<rparr>,
           \<lparr>rr_round_index = 1,
            rr_endpoint = \<lparr>endpoint_chat = [UserMessage ''2+3?'',
                AssistantResponse [] [example_request ''1'', example_request ''2''],
                ToolResultMessage [\<lparr>tool_call_id = ''2'', content = ''5''\<rparr>, \<lparr>tool_call_id = ''1'', content = ''5''\<rparr>]],
              endpoint_tools = None\<rparr>,
            rr_prediction = ''5'',
            rr_tool_call_requests = [],
            rr_tool_results = [],
            rr_invalid_tool_request = None\<rparr>]\<rparr>)"
  by (simp add: act_defs upt2)



lemma example_env_simps:
  "parse_tools (example_env completion) [''add''] = Inr [''add'']"
  "as_completed (example_env completion) = completion"
  "call_tool (example_env completion) = (\<lambda>ep r. Inr \<lparr>tool_call_id = request_id r, content = ''5''\<rparr>)"
  "handle_invalid_tool_request (example_env completion) = (\<lambda>ep err_msg. Inl (LMStudioPredictionError err_msg))"
  "handle_invalid_tool_request stubborn_env = (\<lambda>ep err_msg. Inl (LMStudioPredictionError err_msg))"
  by (simp_all add: example_env_def stubborn_env_def)

lemma repr_int_examples:
  "repr_int 0 = ''0''" "repr_int (- 12) = ''-12''" "repr_int 305 = ''305''"
  by (simp_all add: repr_int_def decimal_digits.simps)

lemma act_rejects_no_rounds:
  "LLM_act env history tools (Some 0) =
     Some (Inl (LMStudioValueError ''Max prediction rounds must be at least 1 (0 given)''),
           \<lparr>agent_chat = history, round_index = None, rounds_log = []\<rparr>)"
  by (simp add: LLM_act_def repr_int_def decimal_digits.simps)



section \<open>The tool results of a round\<close>

lemma chat_inv_round:
  assumes "chat_inv env history st"
  shows "chat_inv env history (snd (act_round env tools fri i st))"
proof (cases rule: act_round_cases[of env tools fri i st])
  case (raised e)
  with assms show ?thesis by (simp add: chat_inv_def)
next
  case (completed rr st')
  from completed(1) have "snd (act_round env tools fri i st) = st'" by simp
  with assms completed(2,6,7) show ?thesis by (simp add: chat_inv_def)
qed

lemma chat_inv_for:
  "chat_inv env history st \<Longrightarrow> chat_inv env history (snd (act_for env tools fri is st))"
proof (induction "is" arbitrary: st)
  case Nil
  then show ?case by simp
next
  case (Cons i "is")
  from chat_inv_round[OF Cons.prems, of tools fri i]
  have step: "chat_inv env history (snd (act_round env tools fri i st))" .
  show ?case
  proof (cases "act_round env tools fri i st")
    case (Pair r st1)
    with step have st1: "chat_inv env history st1" by simp
    show ?thesis
    proof (cases r)
      case (Inl e)
      with Pair st1 show ?thesis by simp
    next
      case (Inr leave)
      with Pair st1 Cons.IH[OF st1] show ?thesis by simp
    qed
  qed
qed

lemma chat_inv_count:
  "act_count env tools fri i st = Some y \<Longrightarrow>
   chat_inv env history st \<Longrightarrow> chat_inv env history (snd y)"
proof (induction rule: act_count.raw_induct[rotated, consumes 1, case_names step])
  case (step f env tools fri i st y)
  note init = step.prems(1)
  have round: "chat_inv env history (snd (act_round env tools fri i st))"
    using init by (rule chat_inv_round)
  show ?case
  proof (cases "act_round env tools fri i st")
    case (Pair r1 st1)
    with round have st1: "chat_inv env history st1" by simp
    show ?thesis
    proof (cases r1)
      case (Inl e)
      with Pair st1 step.hyps show ?thesis by auto
    next
      case (Inr leave)
      show ?thesis
      proof (cases leave)
        case True
        with Inr Pair st1 step.hyps show ?thesis by auto
      next
        case False
        with Inr Pair step.hyps have "f env tools fri (i + 1) st1 = Some y" by simp
        from step.IH[OF this st1] show ?thesis .
      qed
    qed
  qed
qed

lemma chat_inv_act:
  assumes "LLM_act env history tools max_prediction_rounds = Some (r, st)"
  shows "chat_inv env history st"
proof -
  define st0 where "st0 = \<lparr>agent_chat = history, round_index = None, rounds_log = []\<rparr>"
  have init: "chat_inv env history st0" by (simp add: st0_def chat_inv_def)
  show ?thesis
  proof (cases "parse_tools env tools")
    case (Inl e)
    with assms have "st = st0"
      by (auto simp: LLM_act_def Let_def st0_def split: option.splits if_splits)
    with init show ?thesis by simp
  next
    case (Inr args)
    show ?thesis
    proof (cases max_prediction_rounds)
      case None
      with assms Inr obtain r1 where "act_count env args (- 1) 0 st0 = Some (r1, st)"
        by (auto simp: LLM_act_def Let_def st0_def dest!: act_result_cases)
      from chat_inv_count[OF this init] show ?thesis by simp
    next
      case (Some k)
      show ?thesis
      proof (cases "k < 1")
        case True
        with Some assms init show ?thesis by (simp add: LLM_act_def Let_def st0_def)
      next
        case False
        with Some assms Inr
        have "act_result (act_for env args (k - 1) (map int [0..<nat k]) st0) = (r, st)"
          by (simp add: LLM_act_def Let_def st0_def)
        then have "snd (act_for env args (k - 1) (map int [0..<nat k]) st0) = st"
          using act_result_cases[of "fst (act_for env args (k - 1) (map int [0..<nat k]) st0)"
                  "snd (act_for env args (k - 1) (map int [0..<nat k]) st0)" r st]
          by simp
        with chat_inv_for[OF init, of args "k - 1" "map int [0..<nat k]"]
        show ?thesis by simp
      qed
    qed
  qed
qed

text \<open>
  C5, as the code has it. In every call of \<^verbatim>\<open>act\<close> that returns or raises, with or
  without a limit of rounds, the chat is the history followed by the messages of the
  rounds performed, in order; a round that received tool call requests appends the
  assistant response with the requests and then one tool results message. Every
  round recorded is a prediction for its endpoint, with the tool call requests of
  that prediction in the order received. The results in the tool results message
  are the results of the futures of exactly the tool calls requested in that round,
  in the order in which \<^verbatim>\<open>as_completed\<close> yielded the futures. \<^verbatim>\<open>as_completed\<close> yields
  every future it is given once, so there is one result per request; the order is
  that of \<^verbatim>\<open>as_completed\<close>, which the order of the requests does not determine.
\<close>

theorem tool_results_in_yield_order:
  assumes "LLM_act env history tools max_prediction_rounds = Some (r, st)"
  shows "agent_chat st = history @ concat (map (round_messages env) (rounds_log st))
    \<and> (\<forall>rr \<in> set (rounds_log st).
          \<exists>events. predict env (rr_endpoint rr) = Inr (events, rr_prediction rr)
            \<and> rr_tool_call_requests rr = tool_call_requests_of events)
    \<and> (\<forall>rr \<in> set (rounds_log st).
          rr_tool_call_requests rr \<noteq> [] \<longrightarrow>
            ToolResultMessage (rr_tool_results rr) \<in> set (agent_chat st)
            \<and> map Inr (rr_tool_results rr) =
                as_completed env
                  (map (call_tool env (rr_endpoint rr)) (rr_tool_call_requests rr)))
    \<and> ((\<forall>fs. mset (as_completed env fs) = mset fs) \<longrightarrow>
          (\<forall>rr \<in> set (rounds_log st).
             mset (map Inr (rr_tool_results rr)) =
               mset (map (call_tool env (rr_endpoint rr)) (rr_tool_call_requests rr))))"
proof -
  from chat_inv_act[OF assms]
  have chat: "agent_chat st = history @ concat (map (round_messages env) (rounds_log st))"
    and yielded: "\<forall>rr \<in> set (rounds_log st). results_yielded env rr"
    by (simp_all add: chat_inv_def)
  show ?thesis
  proof (intro conjI ballI impI)
    show "agent_chat st = history @ concat (map (round_messages env) (rounds_log st))"
      by (rule chat)
  next
    fix rr assume "rr \<in> set (rounds_log st)"
    with yielded have "results_yielded env rr" by simp
    then show "\<exists>events. predict env (rr_endpoint rr) = Inr (events, rr_prediction rr)
            \<and> rr_tool_call_requests rr = tool_call_requests_of events"
      by (simp add: results_yielded_def)
  next
    fix rr assume rr: "rr \<in> set (rounds_log st)" and ne: "rr_tool_call_requests rr \<noteq> []"
    from ne have "ToolResultMessage (rr_tool_results rr) \<in> set (round_messages env rr)"
      by (simp add: round_messages_def)
    with rr show "ToolResultMessage (rr_tool_results rr) \<in> set (agent_chat st)"
      unfolding chat by auto
    from rr yielded have "results_yielded env rr" by simp
    with ne show "map Inr (rr_tool_results rr) =
                as_completed env
                  (map (call_tool env (rr_endpoint rr)) (rr_tool_call_requests rr))"
      by (simp add: results_yielded_def)
  next
    fix rr
    assume perm: "\<forall>fs. mset (as_completed env fs) = mset fs"
      and rr: "rr \<in> set (rounds_log st)"
    from rr yielded have y: "results_yielded env rr" by simp
    show "mset (map Inr (rr_tool_results rr)) =
               mset (map (call_tool env (rr_endpoint rr)) (rr_tool_call_requests rr))"
    proof (cases "rr_tool_call_requests rr = []")
      case True
      with y show ?thesis by (simp add: results_yielded_def)
    next
      case False
      with y have "map Inr (rr_tool_results rr) =
                as_completed env
                  (map (call_tool env (rr_endpoint rr)) (rr_tool_call_requests rr))"
        by (simp add: results_yielded_def)
      with perm show ?thesis by simp
    qed
  qed
qed

text \<open>
  The run of two rounds with the futures yielded in reverse: the chat ends with the
  requests 1, 2 followed by the results for 2, 1, as \<^verbatim>\<open>as_completed\<close> yielded them,
  one per request.
\<close>

theorem tool_results_in_yield_order_witness:
  "LLM_act (example_env rev) [UserMessage ''2+3?''] [''add''] (Some 2) \<noteq> None
   \<and> (\<forall>fs. mset (as_completed (example_env rev) fs) = mset fs)
   \<and> agent_chat (snd (the (LLM_act (example_env rev) [UserMessage ''2+3?''] [''add''] (Some 2))))
       = [UserMessage ''2+3?'',
          AssistantResponse [] [example_request ''1'', example_request ''2''],
          ToolResultMessage [\<lparr>tool_call_id = ''2'', content = ''5''\<rparr>,
                             \<lparr>tool_call_id = ''1'', content = ''5''\<rparr>]]
   \<and> mset (map tool_call_id (rr_tool_results (hd (rounds_log (snd (the
        (LLM_act (example_env rev) [UserMessage ''2+3?''] [''add''] (Some 2))))))))
       = mset (map request_id (rr_tool_call_requests (hd (rounds_log (snd (the
        (LLM_act (example_env rev) [UserMessage ''2+3?''] [''add''] (Some 2))))))))"
proof -
  have c: "\<forall>fs. mset (as_completed (example_env rev) fs) = mset fs"
    by (simp add: example_env_simps)
  from tool_results_in_yield_order[OF example_act] c
  show ?thesis
    by (simp add: example_act example_env_simps example_request_def)
qed

text \<open>
  The claim as stated fails: the requests of round 0 arrive with the ids 1, 2; the
  future of the second tool call is yielded first, and the results are collected, and
  appended to the chat, with the ids 2, 1.
\<close>

theorem tool_results_out_of_request_order:
  "map request_id (rr_tool_call_requests (hd (rounds_log (snd (the
        (LLM_act (example_env rev) [UserMessage ''2+3?''] [''add''] (Some 2)))))))
     = [''1'', ''2'']
   \<and> map tool_call_id (rr_tool_results (hd (rounds_log (snd (the
        (LLM_act (example_env rev) [UserMessage ''2+3?''] [''add''] (Some 2)))))))
     = [''2'', ''1'']
   \<and> last (agent_chat (snd (the
        (LLM_act (example_env rev) [UserMessage ''2+3?''] [''add''] (Some 2)))))
     = ToolResultMessage [\<lparr>tool_call_id = ''2'', content = ''5''\<rparr>,
                          \<lparr>tool_call_id = ''1'', content = ''5''\<rparr>]"
  by (simp add: example_act example_request_def)

section \<open>Lazy connection\<close>

lemma fold_queue_put_net: "net (fold (\<lambda>q. queue_put q message) qs w) = net w"
  by (induction qs arbitrary: w) (simp_all add: queue_put_def)

lemma disconnect_net: "net (SyncLMStudioWebsocket_disconnect w) = net w"
  by (simp add: SyncLMStudioWebsocket_disconnect_def notify_client_termination_def fold_queue_put_net
      split: option.splits)

lemma enqueue_net: "net (snd (enqueue_message message w)) = net w"
  by (simp add: enqueue_message_def queue_put_def split: option.splits)

lemma receive_messages_net: "net (receive_messages events w) = net w"
  by (induction events w rule: receive_messages.induct)
     (simp_all add: enqueue_net disconnect_net split: option.splits)

lemma send_json_net:
  "\<exists>fs. net (snd (SyncLMStudioWebsocket_send_json message w)) = net w @ map NetSend fs"
proof (cases "working w")
  case True
  then show ?thesis by (intro exI[of _ "[message]"]) (simp add: send_json_working)
next
  case False
  then show ?thesis
    by (intro exI[of _ "[]"])
       (auto simp: working_def SyncLMStudioWebsocket_send_json_def AsyncWebsocketThread_send_json_def
          split: option.splits)
qed

lemma remote_call_net:
  "\<exists>fs. net (snd (SyncLMStudioWebsocket_remote_call ep params events w)) = net w @ map NetSend fs"
proof -
  define w1 where "w1 = (snd (new_queue w))\<lparr>mux := snd (assign_call_id (next_queue w) (mux w))\<rparr>"
  have n1: "net w1 = net w" by (simp add: w1_def new_queue_def)
  obtain fs where fs: "net (snd (send_call (next_call_id (mux w)) ep params w1)) = net w1 @ map NetSend fs"
    using send_json_net[of "get_rpc_message (next_call_id (mux w)) ep params" w1]
    by (cases "ensure_connected ''send remote procedure call'' w1")
       (auto simp: send_call_def intro: exI[of _ "[]"])
  show ?thesis
    using fs n1
    by (intro exI[of _ fs])
       (auto simp: SyncLMStudioWebsocket_remote_call_def w1_def new_queue_def assign_call_id_def
          SyncRemoteCall_receive_result_def queue_get_def receive_messages_net
          split: prod.splits sum.splits option.splits list.splits)
qed

lemma open_channel_enter_net:
  "\<exists>fs. net (snd (open_channel_enter ep w)) = net w @ map NetSend fs"
proof -
  define w1 where "w1 = (snd (new_queue w))\<lparr>mux := snd (assign_channel_id (next_queue w) (mux w))\<rparr>"
  define ch where "ch = SyncChannel_init (next_channel_id (mux w)) (next_queue w) ep"
  have n1: "net w1 = net w" by (simp add: w1_def new_queue_def)
  obtain fs where fs: "net (snd (connect_to_endpoint ch w1)) = net w1 @ map NetSend fs"
    using send_json_net[of "get_creation_message ch" w1]
    by (cases "ensure_connected ''open channel endpoints'' w1")
       (auto simp: connect_to_endpoint_def intro: exI[of _ "[]"])
  show ?thesis
    using fs n1
    by (intro exI[of _ fs])
       (auto simp: open_channel_enter_def w1_def ch_def new_queue_def assign_channel_id_def
          split: prod.splits sum.splits)
qed

lemma operation_connected:
  assumes "lmsws s = Some w"
  shows "\<exists>w' fs. lmsws (run_operation srv op s) = Some w' \<and> net w' = net w @ map NetSend fs"
proof (cases op)
  case (OpRemoteCall ep params events)
  obtain fs where "net (snd (SyncLMStudioWebsocket_remote_call ep params events w)) = net w @ map NetSend fs"
    using remote_call_net by blast
  with assms OpRemoteCall show ?thesis
    by (auto simp: SyncSession_remote_call_def SyncSession_ensure_connected_def get_lmsws_def
        split: prod.splits)
next
  case (OpCreateChannel ep)
  obtain fs where "net (snd (open_channel_enter ep w)) = net w @ map NetSend fs"
    using open_channel_enter_net by blast
  with assms OpCreateChannel show ?thesis
    by (auto simp: create_channel_enter_def SyncSession_ensure_connected_def get_lmsws_def
        split: prod.splits)
qed

lemma operations_connected:
  "lmsws s = Some w \<Longrightarrow>
     \<exists>w' fs. lmsws (fold (run_operation srv) ops s) = Some w' \<and> net w' = net w @ map NetSend fs"
proof (induction ops arbitrary: s w)
  case Nil
  then show ?case by (intro exI[of _ w] exI[of _ "[]"]) simp
next
  case (Cons op ops)
  from operation_connected[OF Cons.prems, of srv op] obtain w1 fs1 where
    w1: "lmsws (run_operation srv op s) = Some w1" "net w1 = net w @ map NetSend fs1" by blast
  from Cons.IH[OF w1(1)] obtain w2 fs2 where
    "lmsws (fold (run_operation srv) ops (run_operation srv op s)) = Some w2"
    "net w2 = net w1 @ map NetSend fs2" by blast
  with w1(2) show ?case
    by (intro exI[of _ w2] exI[of _ "fs1 @ fs2"]) simp
qed

lemma connect_accepted_net:
  "net (snd (SyncLMStudioWebsocket_connect Accepted (SyncLMStudioWebsocket_init url a)))
     = [NetConnect url, NetAuth a]"
  by (simp add: connect_defs)

lemma session_connect_accepted:
  assumes "lmsws s = None" and "api_namespace s = Some ns"
  shows "SyncSession_connect Accepted s =
     (Inr (), s\<lparr>lmsws := Some (snd (SyncLMStudioWebsocket_connect Accepted
                  (SyncLMStudioWebsocket_init (''ws://'' @ client_api_host s @ ''/'' @ ns)
                     (client_auth_details s))))\<rparr>)"
  using assms
  by (simp add: SyncSession_connect_def session_fail_if_connected_def SyncLMStudioWebsocket_enter_def
      connect_defs)

lemma operation_fresh:
  assumes "lmsws s = None" and "api_namespace s = Some ns"
  shows "\<exists>w' fs. lmsws (run_operation Accepted op s) = Some w'
     \<and> net w' = [NetConnect (''ws://'' @ client_api_host s @ ''/'' @ ns), NetAuth (client_auth_details s)]
                 @ map NetSend fs"
proof -
  define w where "w = snd (SyncLMStudioWebsocket_connect Accepted
                  (SyncLMStudioWebsocket_init (''ws://'' @ client_api_host s @ ''/'' @ ns)
                     (client_auth_details s)))"
  have w: "SyncSession_connect Accepted s = (Inr (), s\<lparr>lmsws := Some w\<rparr>)"
       "net w = [NetConnect (''ws://'' @ client_api_host s @ ''/'' @ ns), NetAuth (client_auth_details s)]"
    unfolding w_def by (rule session_connect_accepted[OF assms], rule connect_accepted_net)
  have step: "run_operation Accepted op s = run_operation Accepted op (s\<lparr>lmsws := Some w\<rparr>)"
    using assms(1) w(1)
    by (cases op)
       (simp_all add: SyncSession_remote_call_def create_channel_enter_def SyncSession_ensure_connected_def)
  from operation_connected[of "s\<lparr>lmsws := Some w\<rparr>" w Accepted op] w(2) step
  show ?thesis by simp
qed

lemma count_sends:
  "length (filter is_connect (es @ map NetSend fs)) = length (filter is_connect es)"
  "length (filter is_handshake (es @ map NetSend fs)) = length (filter is_handshake es)"
  by (induction fs) (simp_all add: filter_empty_conv comp_def)

lemma example_session_eq:
  "example_session = \<lparr>client_api_host = ''127.0.0.1:1234'', client_auth_details = ''key'',
      api_namespace = Some ''llm'', lmsws = None\<rparr>"
  by (simp add: example_session_def SyncSession_init_def)

lemma example_operations_net:
  "session_net (fold (run_operation Accepted) (tl example_operations)
                  (run_operation Accepted (hd example_operations) example_session))
     = [NetConnect ''ws://127.0.0.1:1234/llm'', NetAuth ''key'',
        NetSend (RpcCall 0 ''listLoaded'' ''{}''),
        NetSend (ChannelCreate 0 ''predict'' ''{}''),
        NetSend (RpcCall 1 ''listLoaded'' ''{}'')]"
  by (simp add: example_operations_def example_session_eq example_endpoint_def
      SyncSession_remote_call_def SyncLMStudioWebsocket_remote_call_def session_defs connect_defs open_defs
      send_call_def get_rpc_message_def assign_call_id_def enqueue_message_def queue_put_def
      SyncRemoteCall_receive_result_def queue_get_def release_call_id_def)

text \<open>
  C8. A new client has no session and has done nothing on the network, and the
  session it creates for a namespace has no websocket. On a session that is not
  connected, the first operation that needs the connection (a remote call or the
  creation of a channel), with a server that accepts the connection, opens the
  websocket and authenticates; whatever operations follow and whatever the server
  would reply to another attempt, the network log of the session is one connection,
  one handshake, and then only frames. An explicit \<^verbatim>\<open>connect()\<close> on a
  connected session fails and leaves the session as it is.
\<close>

theorem lazy_connect:
  "client_net (Client_init auth host) = [] \<and> sessions (Client_init auth host) = []
   \<and> lmsws (fst (get_session namespace (Client_init auth host))) = None
   \<and> client_net (snd (get_session namespace (Client_init auth host))) = []
   \<and> (lmsws s = None \<and> api_namespace s = Some ns \<longrightarrow>
        (\<exists>fs. session_net (fold (run_operation srv) ops (run_operation Accepted op s)) =
           [NetConnect (''ws://'' @ client_api_host s @ ''/'' @ ns), NetAuth (client_auth_details s)]
             @ map NetSend fs)
        \<and> length (filter is_connect
             (session_net (fold (run_operation srv) ops (run_operation Accepted op s)))) = 1
        \<and> length (filter is_handshake
             (session_net (fold (run_operation srv) ops (run_operation Accepted op s)))) = 1)
   \<and> (lmsws s \<noteq> None \<longrightarrow>
        SyncSession_connect srv s =
          (Inl (AlreadyConnected ''Attempted to connect already connected session''), s))"
proof (intro conjI impI)
  show "client_net (Client_init auth host) = []" "sessions (Client_init auth host) = []"
    by (simp_all add: client_net_def Client_init_def)
  show "lmsws (fst (get_session namespace (Client_init auth host))) = None"
    by (simp add: get_session_def Client_init_def SyncSession_init_def)
  show "client_net (snd (get_session namespace (Client_init auth host))) = []"
    by (simp add: get_session_def Client_init_def SyncSession_init_def client_net_def session_net_def)
next
  assume fresh: "lmsws s = None \<and> api_namespace s = Some ns"
  then obtain w1 fs1 where w1: "lmsws (run_operation Accepted op s) = Some w1"
     "net w1 = [NetConnect (''ws://'' @ client_api_host s @ ''/'' @ ns), NetAuth (client_auth_details s)]
                 @ map NetSend fs1"
    using operation_fresh[of s ns op] by blast
  from operations_connected[OF w1(1), of srv ops] obtain w2 fs2 where
    w2: "lmsws (fold (run_operation srv) ops (run_operation Accepted op s)) = Some w2"
        "net w2 = net w1 @ map NetSend fs2" by blast
  from w1(2) w2 have net: "session_net (fold (run_operation srv) ops (run_operation Accepted op s)) =
           [NetConnect (''ws://'' @ client_api_host s @ ''/'' @ ns), NetAuth (client_auth_details s)]
             @ map NetSend (fs1 @ fs2)"
    by (simp add: session_net_def)
  then show "\<exists>fs. session_net (fold (run_operation srv) ops (run_operation Accepted op s)) =
           [NetConnect (''ws://'' @ client_api_host s @ ''/'' @ ns), NetAuth (client_auth_details s)]
             @ map NetSend fs" by blast
  from net show "length (filter is_connect
             (session_net (fold (run_operation srv) ops (run_operation Accepted op s)))) = 1"
    by (simp only: count_sends) simp
  from net show "length (filter is_handshake
             (session_net (fold (run_operation srv) ops (run_operation Accepted op s)))) = 1"
    by (simp only: count_sends) simp
next
  assume "lmsws s \<noteq> None"
  then show "SyncSession_connect srv s =
          (Inl (AlreadyConnected ''Attempted to connect already connected session''), s)"
    by (simp add: SyncSession_connect_def session_fail_if_connected_def)
qed

theorem lazy_connect_witness:
  "lmsws example_session = None \<and> api_namespace example_session = Some ''llm''
   \<and> length (filter is_handshake
        (session_net (fold (run_operation Accepted) (tl example_operations)
                        (run_operation Accepted (hd example_operations) example_session)))) = 1
   \<and> session_net (fold (run_operation Accepted) (tl example_operations)
                     (run_operation Accepted (hd example_operations) example_session))
       = [NetConnect ''ws://127.0.0.1:1234/llm'', NetAuth ''key'',
          NetSend (RpcCall 0 ''listLoaded'' ''{}''),
          NetSend (ChannelCreate 0 ''predict'' ''{}''),
          NetSend (RpcCall 1 ''listLoaded'' ''{}'')]
   \<and> fst (SyncSession_connect Accepted
            (run_operation Accepted (hd example_operations) example_session))
       = Inl (AlreadyConnected ''Attempted to connect already connected session'')"
proof -
  have fresh: "lmsws example_session = None \<and> api_namespace example_session = Some ''llm''"
    by (simp add: example_session_eq)
  have conn: "lmsws (run_operation Accepted (hd example_operations) example_session) \<noteq> None"
    by (simp add: example_operations_def example_session_eq
      SyncSession_remote_call_def session_defs connect_defs split: prod.splits)
  from lazy_connect[of "''key''" None "''llm''" example_session "''llm''" Accepted
         "tl example_operations" "hd example_operations"] fresh
  have one: "length (filter is_handshake
        (session_net (fold (run_operation Accepted) (tl example_operations)
                        (run_operation Accepted (hd example_operations) example_session)))) = 1"
    by blast
  from lazy_connect[of "''key''" None "''llm''"
         "run_operation Accepted (hd example_operations) example_session" "''llm''" Accepted] conn
  have again: "fst (SyncSession_connect Accepted
            (run_operation Accepted (hd example_operations) example_session))
       = Inl (AlreadyConnected ''Attempted to connect already connected session'')"
    by simp
  from fresh one again example_operations_net show ?thesis by simp
qed

section \<open>The allocation invariant\<close>

text \<open>
  The invariant \<open>wf_websocket\<close> holds of a new websocket and is kept by every
  operation of the websocket and of its channels, and by whatever happens in the
  background: the queues and call ids the multiplexer knows were allocated before.
\<close>

lemma wf_websocket_cong:
  "mux w' = mux w \<Longrightarrow> next_queue w' = next_queue w \<Longrightarrow> wf_websocket w' = wf_websocket w"
  by (simp add: wf_websocket_def)

lemma wf_init: "wf_websocket (SyncLMStudioWebsocket_init url auth)"
  by (simp add: wf_websocket_def connect_defs)

lemma wf_connect: "wf_websocket w \<Longrightarrow> wf_websocket (snd (SyncLMStudioWebsocket_connect srv w))"
  by (cases srv) (auto simp: wf_websocket_def connect_defs split: option.splits)

lemma send_json_frame:
  "mux (snd (SyncLMStudioWebsocket_send_json message w)) = mux w"
  "next_queue (snd (SyncLMStudioWebsocket_send_json message w)) = next_queue w"
  "queues (snd (SyncLMStudioWebsocket_send_json message w)) = queues w"
  by (simp_all add: SyncLMStudioWebsocket_send_json_def split: option.splits prod.splits)

lemma wf_cancel: "wf_websocket (snd (SyncChannel_cancel channel w)) = wf_websocket w"
  by (simp add: SyncChannel_cancel_def wf_websocket_def send_json_frame)

lemma wf_open_channel_exit:
  "wf_websocket w \<Longrightarrow> wf_websocket (open_channel_exit channel w)"
  by (auto simp: wf_websocket_def open_channel_exit_def release_channel_id_def)

lemma wf_open_channel_enter:
  assumes "wf_websocket w"
  shows "wf_websocket (snd (open_channel_enter ep w))"
proof -
  define w1 where "w1 = (snd (new_queue w))\<lparr>mux := snd (assign_channel_id (next_queue w) (mux w))\<rparr>"
  define ch where "ch = SyncChannel_init (next_channel_id (mux w)) (next_queue w) ep"
  have wf1: "wf_websocket w1"
    using assms by (auto simp: w1_def wf_websocket_def new_queue_def assign_channel_id_def)
  have same: "mux (snd (connect_to_endpoint ch w1)) = mux w1"
    "next_queue (snd (connect_to_endpoint ch w1)) = next_queue w1"
    by (cases "ensure_connected ''open channel endpoints'' w1";
        simp add: connect_to_endpoint_def send_json_frame)+
  then have wf2: "wf_websocket (snd (connect_to_endpoint ch w1))"
    using wf1 by (simp add: wf_websocket_def)
  have unfold: "open_channel_enter ep w =
      (case connect_to_endpoint ch w1 of
         (Inl e, w2) \<Rightarrow> (Inl e, w2\<lparr>mux := release_channel_id (next_channel_id (mux w)) (mux w2)\<rparr>)
       | (Inr u, w2) \<Rightarrow> (Inr ch, w2))"
    by (simp add: open_channel_enter_def w1_def ch_def new_queue_def assign_channel_id_def
        split: prod.splits sum.splits)
  have release: "wf_websocket (w'\<lparr>mux := release_channel_id c (mux w')\<rparr>)"
    if "wf_websocket w'" for w' c
    using that by (auto simp: wf_websocket_def release_channel_id_def)
  show ?thesis
  proof (cases "connect_to_endpoint ch w1")
    case (Pair r w2)
    with wf2 have w2: "wf_websocket w2" by simp
    show ?thesis
    proof (cases r)
      case (Inl e)
      with Pair release[OF w2] show ?thesis by (simp add: unfold)
    next
      case (Inr u)
      with Pair w2 show ?thesis by (simp add: unfold)
    qed
  qed
qed

lemma wf_notify: "wf_websocket (notify_client_termination w) = wf_websocket w"
proof -
  have "next_queue (fold (\<lambda>q. queue_put q None) qs w) = next_queue w" for qs
    by (induction qs arbitrary: w) (simp_all add: queue_put_def)
  then show ?thesis
    by (simp add: notify_client_termination_def wf_websocket_def fold_queue_put_mux)
qed

lemma wf_thread: "wf_websocket (w\<lparr>ws_thread := t\<rparr>) = wf_websocket w"
  by (simp add: wf_websocket_def)

lemma wf_disconnect: "wf_websocket (SyncLMStudioWebsocket_disconnect w) = wf_websocket w"
  by (simp add: SyncLMStudioWebsocket_disconnect_def wf_notify wf_thread split: option.splits)

lemma wf_enqueue: "wf_websocket (snd (enqueue_message message w)) = wf_websocket w"
  by (simp add: enqueue_message_def queue_put_def wf_websocket_def split: option.splits)

lemma wf_receive_messages: "wf_websocket (receive_messages events w) = wf_websocket w"
  by (induction events w rule: receive_messages.induct)
     (simp_all add: wf_enqueue wf_disconnect wf_thread split: option.splits)

lemma wf_rx_stream: "wf_websocket (snd (snd (SyncChannel_rx_stream channel w))) = wf_websocket w"
  by (simp add: SyncChannel_rx_stream_def wf_websocket_def split: prod.splits)

lemma wf_remote_call:
  assumes "wf_websocket w"
  shows "wf_websocket (snd (SyncLMStudioWebsocket_remote_call ep params events w))"
proof -
  define w1 where "w1 = (snd (new_queue w))\<lparr>mux := snd (assign_call_id (next_queue w) (mux w))\<rparr>"
  define cid where "cid = next_call_id (mux w)"
  have wf1: "wf_websocket w1"
    using assms by (auto simp: w1_def wf_websocket_def new_queue_def assign_call_id_def)
  have same: "mux (snd (send_call cid ep params w1)) = mux w1"
    "next_queue (snd (send_call cid ep params w1)) = next_queue w1"
    by (cases "ensure_connected ''send remote procedure call'' w1";
        simp add: send_call_def send_json_frame)+
  then have wf2: "wf_websocket (snd (send_call cid ep params w1))"
    using wf1 by (simp add: wf_websocket_def)
  then have wf3: "wf_websocket (receive_messages events (snd (send_call cid ep params w1)))"
    by (simp add: wf_receive_messages)
  have release: "wf_websocket (w'\<lparr>mux := release_call_id c (mux w')\<rparr>)" if "wf_websocket w'" for w' c
    using that by (auto simp: wf_websocket_def release_call_id_def)
  have unfold: "SyncLMStudioWebsocket_remote_call ep params events w =
      (case send_call cid ep params w1 of
         (Inl e, w2) \<Rightarrow> (Some (Inl e), w2\<lparr>mux := release_call_id cid (mux w2)\<rparr>)
       | (Inr u, w2) \<Rightarrow>
           (case SyncRemoteCall_receive_result (next_queue w) (receive_messages events w2) of
              None \<Rightarrow> (None, receive_messages events w2)
            | Some (r, w3) \<Rightarrow> (Some r, w3\<lparr>mux := release_call_id cid (mux w3)\<rparr>)))"
    by (simp add: SyncLMStudioWebsocket_remote_call_def w1_def cid_def new_queue_def assign_call_id_def
        split: prod.splits sum.splits option.splits)
  show ?thesis
  proof (cases "send_call cid ep params w1")
    case (Pair r w2)
    with wf2 wf3 have w2: "wf_websocket w2" "wf_websocket (receive_messages events w2)" by simp_all
    show ?thesis
    proof (cases r)
      case (Inl e)
      with Pair unfold release[OF w2(1)] show ?thesis by simp
    next
      case (Inr u)
      show ?thesis
      proof (cases "SyncRemoteCall_receive_result (next_queue w) (receive_messages events w2)")
        case None
        with Pair Inr unfold w2(2) show ?thesis by simp
      next
        case (Some rw)
        obtain res w3 where rw: "rw = (res, w3)" by (cases rw)
        with Some have "mux w3 = mux (receive_messages events w2)"
          "next_queue w3 = next_queue (receive_messages events w2)"
          by (auto simp: SyncRemoteCall_receive_result_def queue_get_def split: list.splits)
        with w2(2) have "wf_websocket w3" by (simp add: wf_websocket_def)
        from release[OF this] Pair Inr Some rw unfold show ?thesis by simp
      qed
    qed
  qed
qed

text \<open>
  The disconnect by the client puts exactly one shutdown sentinel on every queue
  that is registered once; a receive error puts nothing on any queue.
\<close>

lemma count_list_distinct:
  "distinct xs \<Longrightarrow> x \<in> set xs \<Longrightarrow> count_list xs x = 1"
  by (induction xs) (auto simp: count_list_0_iff)

lemma notify_one_sentinel:
  assumes "distinct (all_queues (mux w))" and "q \<in> set (all_queues (mux w))"
  shows "queues (notify_client_termination w) q = queues w q @ [None]"
proof -
  from assms have "count_list (all_queues (mux w)) q = 1"
    by (rule count_list_distinct)
  then show ?thesis
    by (simp add: notify_client_termination_def fold_queue_put_queues)
qed

lemma disconnect_one_sentinel:
  assumes "ws_thread w \<noteq> None" and "distinct (all_queues (mux w))"
    and "q \<in> set (all_queues (mux w))"
  shows "queues (SyncLMStudioWebsocket_disconnect w) q = queues w q @ [None]"
  using assms notify_one_sentinel[of "w\<lparr>ws_thread := None\<rparr>" q]
  by (auto simp: SyncLMStudioWebsocket_disconnect_def)

lemma receive_error_no_sentinel: "queues (receive_messages [ReceiveError] w) = queues w"
  by (simp split: option.splits)

section \<open>Failure of the transport\<close>

text \<open>
  C4 does not hold of the code. After a receive error that the client did not
  cause, the thread sets \<^verbatim>\<open>_terminate\<close> and ends, and nothing is put on any queue:
  the queue of the open channel stays empty, iterating the channel blocks, and a
  remote call in flight blocks in \<^verbatim>\<open>get()\<close> for good. Only the disconnect by the
  client puts the sentinel on the registered queues, and then the call fails with
  \<open>Disconnected\<close>.
\<close>

theorem transport_failure_notifies_no_inbox:
  "working example_open_websocket
   \<and> map snd (open_channels (mux example_open_websocket)) = [0]
   \<and> queues (receive_messages [ReceiveError] example_open_websocket) 0 = []
   \<and> fst (SyncChannel_rx_stream example_channel
            (receive_messages [ReceiveError] example_open_websocket)) = ([], Blocked)
   \<and> fst (SyncLMStudioWebsocket_remote_call ''listLoaded'' ''{}'' [ReceiveError]
            example_websocket) = None
   \<and> queues (receive_messages [ClientDisconnect] example_open_websocket) 0 = [None]
   \<and> fst (SyncLMStudioWebsocket_remote_call ''listLoaded'' ''{}'' [ClientDisconnect]
            example_websocket) = Some (Inl Disconnected)"
  by (simp add: working_def example_open_websocket_eq example_websocket_eq example_channel_simps
      receive_messages_failed_def clear_task_state_def SyncChannel_rx_stream_def
      SyncLMStudioWebsocket_remote_call_def new_queue_def assign_call_id_def send_call_def
      ensure_connected_def SyncLMStudioWebsocket_send_json_def AsyncWebsocketThread_send_json_def
      get_rpc_message_def SyncRemoteCall_receive_result_def queue_get_def
      SyncLMStudioWebsocket_disconnect_def notify_client_termination_def all_queues_def queue_put_def)

end
